theory Spec2Isabelle
  imports Main "HOL-Library.Word"
begin

unbundle bit_operations_syntax

section \<open>Python strings and values\<close>

text \<open>
  A Python \<open>str\<close> is a sequence of code points. The model takes the code points below 256
  (Latin-1), one \<open>char\<close> each, so \<open>length\<close> counts what Python's \<open>len\<close> counts.
  \<open>str.encode()\<close> is UTF-8: a code point from 128 on becomes two bytes.
\<close>

type_synonym byte = "8 word"
type_synonym w32 = "32 word"

text \<open>\<open>str.isspace\<close> on one code point below 256: TAB, LF, VT, FF, CR, FS, GS, RS, US,
  SPACE, NEL and NBSP.\<close>

definition py_isspace :: "char \<Rightarrow> bool" where
  "py_isspace c = (of_char c \<in> set [9, 10, 11, 12, 13, 28, 29, 30, 31, 32, 133, 160 :: nat])"

text \<open>\<open>s.strip()\<close>: leading and trailing whitespace removed.\<close>

definition strip :: "string \<Rightarrow> string" where
  "strip s = rev (dropWhile py_isspace (rev (dropWhile py_isspace s)))"

text \<open>\<open>s.lower()\<close>: below 256 the upper-case letters are A..Z and the Latin-1 block
  192..222 without the multiplication sign 215; each maps to the code point 32 above.\<close>

definition lower_char :: "char \<Rightarrow> char" where
  "lower_char c =
     (let n = (of_char c :: nat)
      in if (65 \<le> n \<and> n \<le> 90) \<or> (192 \<le> n \<and> n \<le> 222 \<and> n \<noteq> 215)
         then char_of (n + 32) else c)"

definition lower :: "string \<Rightarrow> string" where
  "lower s = map lower_char s"

text \<open>\<open>sub in s\<close> on strings: \<open>sub\<close> occurs as a contiguous run of \<open>s\<close>.\<close>

fun startswith :: "string \<Rightarrow> string \<Rightarrow> bool" where
  "startswith s [] = True"
| "startswith [] (p # ps) = False"
| "startswith (c # cs) (p # ps) = (c = p \<and> startswith cs ps)"

fun py_in :: "string \<Rightarrow> string \<Rightarrow> bool" where
  "py_in sub [] = (sub = [])"
| "py_in sub (c # cs) = (startswith (c # cs) sub \<or> py_in sub cs)"

text \<open>Dictionaries with string keys and string values (\<open>dicom_meta\<close>, \<open>file_paths\<close>,
  \<open>ocr_results\<close>). \<open>truthy_get d k\<close> is the truth value of \<open>d.get(k)\<close>: a missing key
  gives \<open>None\<close> and an empty string is false as well. \<open>str_get d k\<close> is
  \<open>str(d.get(k))\<close>, which is the text \<open>None\<close> for a missing key.\<close>

type_synonym str_dict = "string \<rightharpoonup> string"

definition truthy_get :: "str_dict \<Rightarrow> string \<Rightarrow> bool" where
  "truthy_get d k = (case d k of None \<Rightarrow> False | Some v \<Rightarrow> v \<noteq> [])"

definition str_get :: "str_dict \<Rightarrow> string \<Rightarrow> string" where
  "str_get d k = (case d k of None \<Rightarrow> ''None'' | Some v \<Rightarrow> v)"

text \<open>Values decoded from JSON (the consent and identity payloads). Numbers are kept as
  integers; an object keeps its members in order.\<close>

datatype json =
    JNull
  | JBool bool
  | JNumber int
  | JString string
  | JArray "json list"
  | JObject "(string \<times> json) list"

text \<open>Python's truth value of a decoded JSON value.\<close>

fun py_truthy :: "json \<Rightarrow> bool" where
  "py_truthy JNull = False"
| "py_truthy (JBool b) = b"
| "py_truthy (JNumber n) = (n \<noteq> 0)"
| "py_truthy (JString s) = (s \<noteq> [])"
| "py_truthy (JArray xs) = (xs \<noteq> [])"
| "py_truthy (JObject kvs) = (kvs \<noteq> [])"

text \<open>The truth value of an optional string (\<open>Optional[str]\<close>): \<open>None\<close> and the empty
  string are false.\<close>

definition truthy_opt :: "string option \<Rightarrow> bool" where
  "truthy_opt v = (case v of None \<Rightarrow> False | Some s \<Rightarrow> s \<noteq> [])"

section \<open>SHA-256 (hashlib.sha256(...).hexdigest())\<close>

definition rotr :: "nat \<Rightarrow> w32 \<Rightarrow> w32" where
  "rotr n x = drop_bit n x OR push_bit (32 - n) x"

definition Ch :: "w32 \<Rightarrow> w32 \<Rightarrow> w32 \<Rightarrow> w32" where
  "Ch x y z = (x AND y) XOR (NOT x AND z)"

definition Maj :: "w32 \<Rightarrow> w32 \<Rightarrow> w32 \<Rightarrow> w32" where
  "Maj x y z = (x AND y) XOR (x AND z) XOR (y AND z)"

definition bsig0 :: "w32 \<Rightarrow> w32" where
  "bsig0 x = rotr 2 x XOR rotr 13 x XOR rotr 22 x"

definition bsig1 :: "w32 \<Rightarrow> w32" where
  "bsig1 x = rotr 6 x XOR rotr 11 x XOR rotr 25 x"

definition ssig0 :: "w32 \<Rightarrow> w32" where
  "ssig0 x = rotr 7 x XOR rotr 18 x XOR drop_bit 3 x"

definition ssig1 :: "w32 \<Rightarrow> w32" where
  "ssig1 x = rotr 17 x XOR rotr 19 x XOR drop_bit 10 x"

definition sha256_K :: "w32 list" where
  "sha256_K =
   [0x428A2F98, 0x71374491, 0xB5C0FBCF, 0xE9B5DBA5, 0x3956C25B, 0x59F111F1, 0x923F82A4, 0xAB1C5ED5,
    0xD807AA98, 0x12835B01, 0x243185BE, 0x550C7DC3, 0x72BE5D74, 0x80DEB1FE, 0x9BDC06A7, 0xC19BF174,
    0xE49B69C1, 0xEFBE4786, 0x0FC19DC6, 0x240CA1CC, 0x2DE92C6F, 0x4A7484AA, 0x5CB0A9DC, 0x76F988DA,
    0x983E5152, 0xA831C66D, 0xB00327C8, 0xBF597FC7, 0xC6E00BF3, 0xD5A79147, 0x06CA6351, 0x14292967,
    0x27B70A85, 0x2E1B2138, 0x4D2C6DFC, 0x53380D13, 0x650A7354, 0x766A0ABB, 0x81C2C92E, 0x92722C85,
    0xA2BFE8A1, 0xA81A664B, 0xC24B8B70, 0xC76C51A3, 0xD192E819, 0xD6990624, 0xF40E3585, 0x106AA070,
    0x19A4C116, 0x1E376C08, 0x2748774C, 0x34B0BCB5, 0x391C0CB3, 0x4ED8AA4A, 0x5B9CCA4F, 0x682E6FF3,
    0x748F82EE, 0x78A5636F, 0x84C87814, 0x8CC70208, 0x90BEFFFA, 0xA4506CEB, 0xBEF9A3F7, 0xC67178F2]"

definition sha256_H0 :: "w32 list" where
  "sha256_H0 =
   [0x6A09E667, 0xBB67AE85, 0x3C6EF372, 0xA54FF53A, 0x510E527F, 0x9B05688C, 0x1F83D9AB, 0x5BE0CD19]"

text \<open>The message length in bits, as eight bytes, most significant first.\<close>

definition be64 :: "nat \<Rightarrow> byte list" where
  "be64 n = map (\<lambda>i. ucast (drop_bit (8 * i) (of_nat n :: 64 word))) [7, 6, 5, 4, 3, 2, 1, 0]"

definition sha256_pad :: "byte list \<Rightarrow> byte list" where
  "sha256_pad m =
     m @ [0x80] @ replicate ((64 - (length m + 9) mod 64) mod 64) 0 @ be64 (8 * length m)"

fun be_words :: "byte list \<Rightarrow> w32 list" where
  "be_words (a # b # c # d # bs) =
     (push_bit 24 (ucast a) OR push_bit 16 (ucast b) OR push_bit 8 (ucast c) OR ucast d)
       # be_words bs"
| "be_words _ = []"

fun chunks16 :: "nat \<Rightarrow> w32 list \<Rightarrow> w32 list list" where
  "chunks16 0 ws = []"
| "chunks16 (Suc n) ws = take 16 ws # chunks16 n (drop 16 ws)"

text \<open>The message schedule: the sixteen words of a block extended by \<open>n\<close> more.\<close>

fun schedule :: "nat \<Rightarrow> w32 list \<Rightarrow> w32 list" where
  "schedule 0 w = w"
| "schedule (Suc n) w =
     schedule n (w @ [ssig1 (w ! (length w - 2)) + w ! (length w - 7)
                      + ssig0 (w ! (length w - 15)) + w ! (length w - 16)])"

fun round256 :: "w32 list \<Rightarrow> w32 \<times> w32 \<Rightarrow> w32 list" where
  "round256 [a, b, c, d, e, f, g, h] (k, w) =
     (let t1 = h + bsig1 e + Ch e f g + k + w;
          t2 = bsig0 a + Maj a b c
      in [t1 + t2, a, b, c, d + t1, e, f, g])"
| "round256 s _ = s"

definition compress :: "w32 list \<Rightarrow> w32 list \<Rightarrow> w32 list" where
  "compress hs block =
     map2 (+) hs (foldl round256 hs (zip sha256_K (schedule 48 block)))"

definition sha256 :: "byte list \<Rightarrow> w32 list" where
  "sha256 m =
     (let ws = be_words (sha256_pad m)
      in foldl compress sha256_H0 (chunks16 (length ws div 16) ws))"

definition hex_digit :: "nat \<Rightarrow> char" where
  "hex_digit n = (''0123456789abcdef'') ! n"

definition hex32 :: "w32 \<Rightarrow> string" where
  "hex32 w = map (\<lambda>i. hex_digit (unat (drop_bit (4 * i) w AND 15))) [7, 6, 5, 4, 3, 2, 1, 0]"

definition hexdigest :: "w32 list \<Rightarrow> string" where
  "hexdigest ws = concat (map hex32 ws)"

definition utf8_encode :: "string \<Rightarrow> byte list" where
  "utf8_encode s =
     concat (map (\<lambda>c. let n = (of_char c :: nat)
                         in if n < 128 then [of_nat n]
                            else [of_nat (192 + n div 64), of_nat (128 + n mod 64)]) s)"

text \<open>\<open>hashlib.sha256(s.encode()).hexdigest()\<close>.\<close>

definition sha256_hexdigest :: "string \<Rightarrow> string" where
  "sha256_hexdigest s = hexdigest (sha256 (utf8_encode s))"

section \<open>The validation engine (tasks.py)\<close>

datatype confidence = CRITICAL | HIGH | MEDIUM

record finding =
  confidence :: confidence
  reason :: string

datatype validation_status = PASSED | PASSED_MEDIUM | FLAGGED_HIGH | FAILED_CRITICAL

text \<open>The dictionary the engine returns: \<open>status\<close>, and \<open>failures\<close> unless the list is
  empty (the \<open>PASSED\<close> dictionary has no such key).\<close>

record validation_result =
  status :: validation_status
  failures :: "finding list option"

text \<open>\<open>claim_data\<close> as main.py builds it: the two required form strings, the decoded
  identity and consent payloads, and the optional geotag.\<close>

record claim_data =
  verified_patient_id :: string
  doctor_diagnosis :: string
  identity_data :: json
  consent_data :: json
  patient_geotag :: "string option"

text \<open>Rule 1, identity verification (tasks.py lines 59 to 66). The corrupt-source branch
  is taken when \<open>dicom_meta.get("error")\<close> is true, and then formats
  \<open>dicom_meta['error']\<close>, the value \<open>str_get\<close> returns for a key that is there.\<close>

definition rule1 :: "claim_data \<Rightarrow> str_dict \<Rightarrow> finding list" where
  "rule1 cd dicom_meta =
     (let verified_id = strip (verified_patient_id cd);
          dicom_id = strip (str_get dicom_meta ''PatientID'')
      in if truthy_get dicom_meta ''error''
         then [\<lparr>confidence = CRITICAL,
                reason = ''DICOM Corrupt: '' @ str_get dicom_meta ''error''\<rparr>]
         else if verified_id \<noteq> dicom_id
         then [\<lparr>confidence = CRITICAL,
                reason = ''Patient ID Mismatch: Form('' @ verified_id @ '') vs DICOM(''
                         @ dicom_id @ '')''\<rparr>]
         else [])"

text \<open>Rule 2, clinical consistency (lines 68 to 72).\<close>

definition rule2 :: "claim_data \<Rightarrow> string \<Rightarrow> finding list" where
  "rule2 cd lab_text =
     (let diag = lower (doctor_diagnosis cd);
          lab = lower lab_text
      in if (py_in ''critical'' diag \<or> py_in ''fracture'' diag) \<and> py_in ''normal'' lab
         then [\<lparr>confidence = HIGH,
                reason = ''Lab report says 'Normal' but Diagnosis is Critical.''\<rparr>]
         else [])"

text \<open>Rule 3, geotag fraud check (lines 74 to 77).\<close>

definition rule3 :: "claim_data \<Rightarrow> str_dict \<Rightarrow> finding list" where
  "rule3 cd file_paths =
     (if truthy_get file_paths ''patient_photo'' \<and> \<not> truthy_opt (patient_geotag cd)
      then [\<lparr>confidence = MEDIUM,
             reason = ''Patient photo provided, but GPS geotag data is missing.''\<rparr>]
      else [])"

text \<open>Rule 4, consent verification (lines 79 to 82).\<close>

definition rule4 :: "claim_data \<Rightarrow> str_dict \<Rightarrow> finding list" where
  "rule4 cd file_paths =
     (if \<not> py_truthy (consent_data cd) \<and> \<not> truthy_get file_paths ''consent_image''
      then [\<lparr>confidence = CRITICAL,
             reason = ''Missing Patient Consent (Payload or Image required).''\<rparr>]
      else [])"

text \<open>The aggregation of lines 84 to 87.\<close>

definition aggregate :: "finding list \<Rightarrow> validation_result" where
  "aggregate fs =
     (if fs = [] then \<lparr>status = PASSED, failures = None\<rparr>
      else if list_ex (\<lambda>f. confidence f = CRITICAL) fs
      then \<lparr>status = FAILED_CRITICAL, failures = Some fs\<rparr>
      else if list_ex (\<lambda>f. confidence f = HIGH) fs
      then \<lparr>status = FLAGGED_HIGH, failures = Some fs\<rparr>
      else \<lparr>status = PASSED_MEDIUM, failures = Some fs\<rparr>)"

text \<open>The list \<open>failures\<close> as the four rules append to it, in order.\<close>

definition engine_failures :: "claim_data \<Rightarrow> str_dict \<Rightarrow> string \<Rightarrow> str_dict \<Rightarrow> finding list" where
  "engine_failures cd dicom_meta lab_text file_paths =
     rule1 cd dicom_meta @ rule2 cd lab_text @ rule3 cd file_paths @ rule4 cd file_paths"

definition run_validation_engine ::
  "claim_data \<Rightarrow> str_dict \<Rightarrow> string \<Rightarrow> str_dict \<Rightarrow> str_dict \<Rightarrow> validation_result" where
  "run_validation_engine cd dicom_meta lab_text file_paths ocr_results =
     aggregate (engine_failures cd dicom_meta lab_text file_paths)"

section \<open>Extraction adapters (tasks.py)\<close>

text \<open>
  The libraries the worker calls are arguments of the model. A call that raises an
  exception (a subclass of \<open>Exception\<close>) is \<open>Inl e\<close> (or \<open>Some e\<close> for a call without a
  result), where \<open>e\<close> is the text \<open>str(e)\<close> of the exception.
  \<^item> \<open>update_state\<close>: Celery's \<open>self.update_state(state=..., meta={'step': ...})\<close>;
  \<^item> \<open>dcmread\<close>: \<open>pydicom.dcmread(path, force=True)\<close>; the dataset maps an element
    keyword to the text \<open>str\<close> gives for its value;
  \<^item> \<open>fitz_open\<close>: \<open>fitz.open(path)\<close>; a document is its pages' \<open>get_text()\<close> results
    and the result of \<open>close()\<close>;
  \<^item> \<open>image_to_string\<close>: \<open>Image.open(path)\<close> followed by
    \<open>pytesseract.image_to_string\<close>;
  \<^item> \<open>fhir_bundle\<close>: the FHIR resources library building the Patient, the Observation
    and the Bundle from the patient id and the diagnosis, and \<open>json.loads(bundle.json())\<close>.
\<close>

datatype task_state = PENDING | PROCESSING | VALIDATING | COMPLETED | FLAGGED | FAILED | ERROR

record pdf_doc =
  pages :: "(string + string) list"
  close_doc :: "string option"

record worker_env =
  update_state :: "task_state \<Rightarrow> string \<Rightarrow> string option"
  dcmread :: "string \<Rightarrow> string + str_dict"
  fitz_open :: "string \<Rightarrow> string + pdf_doc"
  image_to_string :: "string \<Rightarrow> string + string"
  fhir_bundle :: "string \<Rightarrow> string \<Rightarrow> string + json"

text \<open>\<open>ds.get(keyword, "N/A")\<close>.\<close>

definition ds_get :: "str_dict \<Rightarrow> string \<Rightarrow> string" where
  "ds_get ds k = (case ds k of None \<Rightarrow> ''N/A'' | Some v \<Rightarrow> v)"

definition process_dicom :: "worker_env \<Rightarrow> string \<Rightarrow> str_dict" where
  "process_dicom env file_path =
     (case dcmread env file_path of
        Inr ds \<Rightarrow>
          [''PatientID'' \<mapsto> ds_get ds ''PatientID'',
           ''PatientName'' \<mapsto> ds_get ds ''PatientName'',
           ''AccessionNumber'' \<mapsto> ds_get ds ''AccessionNumber'',
           ''StudyDate'' \<mapsto> ds_get ds ''StudyDate'',
           ''Modality'' \<mapsto> ds_get ds ''Modality'']
      | Inl e \<Rightarrow> [''error'' \<mapsto> e])"

text \<open>The loop \<open>for page in doc: text += page.get_text()\<close>.\<close>

fun read_pages :: "(string + string) list \<Rightarrow> string \<Rightarrow> string + string" where
  "read_pages [] text = Inr text"
| "read_pages (Inl e # ps) text = Inl e"
| "read_pages (Inr t # ps) text = read_pages ps (text @ t)"

definition process_pdf :: "worker_env \<Rightarrow> string \<Rightarrow> string" where
  "process_pdf env file_path =
     (case fitz_open env file_path of
        Inl e \<Rightarrow> ''PDF Error: '' @ e
      | Inr doc \<Rightarrow>
          (case read_pages (pages doc) [] of
             Inl e \<Rightarrow> ''PDF Error: '' @ e
           | Inr text \<Rightarrow>
               (case close_doc doc of
                  Some e \<Rightarrow> ''PDF Error: '' @ e
                | None \<Rightarrow> text)))"

definition process_image_ocr :: "worker_env \<Rightarrow> string \<Rightarrow> string" where
  "process_image_ocr env file_path =
     (case image_to_string env file_path of
        Inl e \<Rightarrow> ''OCR Error: '' @ e
      | Inr text \<Rightarrow> text)"

section \<open>The worker (tasks.py, process_claim_async)\<close>

text \<open>\<open>_generate_mock_fhir\<close>: the bundle as JSON, or the dictionary
  \<open>{"error": "FHIR Generation Failed: ..."}\<close>.\<close>

definition generate_mock_fhir :: "worker_env \<Rightarrow> claim_data \<Rightarrow> json" where
  "generate_mock_fhir env cd =
     (case fhir_bundle env (verified_patient_id cd) (doctor_diagnosis cd) of
        Inr bundle \<Rightarrow> bundle
      | Inl e \<Rightarrow> JObject [(''error'', JString (''FHIR Generation Failed: '' @ e))])"

text \<open>The dictionary \<open>results\<close> on the path that reaches \<open>return results\<close>; a key the
  code may leave out is an option.\<close>

record results =
  task_status :: task_state
  steps_completed :: "string list"
  ocr_results :: str_dict
  dicom_metadata :: str_dict
  lab_report_text :: string
  validation_result :: validation_result
  fhir_bundle_out :: "json option"

text \<open>What the task returns: \<open>results\<close>, or \<open>{"status": "ERROR", "error": str(e)}\<close> from
  the handler of line 165.\<close>

datatype task_return = Results results | ErrorDict string

definition return_status :: "task_return \<Rightarrow> task_state" where
  "return_status r = (case r of Results res \<Rightarrow> task_status res | ErrorDict e \<Rightarrow> ERROR)"

text \<open>The part of \<open>results\<close> the loop over the optional documents writes:
  \<open>steps_completed\<close>, \<open>ocr_results\<close> and \<open>lab_report_text\<close> (absent until the lab
  report is read).\<close>

record ocr_acc =
  acc_steps :: "string list"
  acc_ocr :: str_dict
  acc_lab :: "string option"

text \<open>Lines 126 to 140, one iteration for each (key, label) pair.\<close>

fun ocr_loop ::
  "worker_env \<Rightarrow> str_dict \<Rightarrow> (string \<times> string) list \<Rightarrow> ocr_acc \<Rightarrow> string + ocr_acc" where
  "ocr_loop env file_paths [] acc = Inr acc"
| "ocr_loop env file_paths ((key, label) # rest) acc =
     (case file_paths key of
        None \<Rightarrow> ocr_loop env file_paths rest acc
      | Some path \<Rightarrow>
          if path = [] then ocr_loop env file_paths rest acc
          else (case update_state env PROCESSING (''Reading '' @ label @ ''...'') of
                  Some e \<Rightarrow> Inl e
                | None \<Rightarrow>
                    (let text = (if key = ''lab_pdf'' then process_pdf env path
                                 else process_image_ocr env path);
                         acc1 = (if key = ''lab_pdf'' then acc\<lparr>acc_lab := Some text\<rparr> else acc)
                     in ocr_loop env file_paths rest
                          (acc1\<lparr>acc_ocr := (acc_ocr acc1)(key \<mapsto> text),
                                acc_steps := acc_steps acc1 @ [label]\<rparr>))))"

text \<open>The body of the \<open>try\<close> block, lines 119 to 163. \<open>Inl e\<close>: an exception with text
  \<open>e\<close> left the block. \<open>file_paths["dicom"]\<close> raises \<open>KeyError('dicom')\<close>, whose text
  is the key in single quotes (code point 39).\<close>

definition process_body :: "worker_env \<Rightarrow> claim_data \<Rightarrow> str_dict \<Rightarrow> string + results" where
  "process_body env cd file_paths =
     (case update_state env PROCESSING ''Processing DICOM...'' of
        Some e \<Rightarrow> Inl e
      | None \<Rightarrow>
     (case file_paths ''dicom'' of
        None \<Rightarrow> Inl ([CHR 0x27] @ ''dicom'' @ [CHR 0x27])
      | Some dicom_path \<Rightarrow>
     (let dicom_meta = process_dicom env dicom_path
      in case ocr_loop env file_paths
                [(''lab_pdf'', ''LAB_PDF''), (''identity_doc'', ''IDENTITY_OCR''),
                 (''consent_image'', ''CONSENT_OCR'')]
                \<lparr>acc_steps = [''DICOM''], acc_ocr = Map.empty, acc_lab = None\<rparr> of
           Inl e \<Rightarrow> Inl e
         | Inr acc \<Rightarrow>
     (let lab_text = (case acc_lab acc of None \<Rightarrow> ''N/A'' | Some t \<Rightarrow> t)
      in case update_state env VALIDATING ''Running AI Validation Agents...'' of
           Some e \<Rightarrow> Inl e
         | None \<Rightarrow>
     (let val_res = run_validation_engine cd dicom_meta lab_text file_paths (acc_ocr acc);
          fhir = (if status val_res \<in> set [PASSED, FLAGGED_HIGH, PASSED_MEDIUM]
                  then Some (generate_mock_fhir env cd) else None);
          final = (if status val_res = FAILED_CRITICAL then FAILED
                   else if status val_res = FLAGGED_HIGH then FLAGGED
                   else COMPLETED)
      in Inr \<lparr>task_status = final,
              steps_completed = acc_steps acc,
              ocr_results = acc_ocr acc,
              dicom_metadata = dicom_meta,
              lab_report_text = lab_text,
              validation_result = val_res,
              fhir_bundle_out = fhir\<rparr>)))))"

text \<open>The task: the \<open>try\<close> block under \<open>except Exception\<close>.\<close>

definition process_claim_async :: "worker_env \<Rightarrow> claim_data \<Rightarrow> str_dict \<Rightarrow> task_return" where
  "process_claim_async env cd file_paths =
     (case process_body env cd file_paths of
        Inr res \<Rightarrow> Results res
      | Inl e \<Rightarrow> ErrorDict e)"

section \<open>The API process (main.py)\<close>

text \<open>
  An uploaded file: its \<open>filename\<close> and its bytes. The form of \<open>submit_claim_async\<close>,
  one field for each parameter (the prefix keeps the names apart from the keys of
  \<open>claim_data\<close>).
\<close>

record upload =
  filename :: string
  file_bytes :: string

record form =
  form_verified_patient_id :: string
  form_doctor_diagnosis :: string
  form_verified_identity_payload :: "string option"
  form_digital_consent_payload :: "string option"
  form_identity_document_image :: "upload option"
  form_consent_form_image :: "upload option"
  form_dicom_file :: upload
  form_lab_report_pdf :: "upload option"
  form_geotagged_patient_photo :: "upload option"
  form_patient_geotag :: "string option"
  form_idempotency_key :: "string option"

text \<open>An entry of \<open>IMMUTABLE_LOGS\<close>; \<open>override_reason\<close> is the value under the key
  \<open>reason\<close>.\<close>

record override_log =
  event :: string
  timestamp :: string
  task_id :: string
  doctor_id :: string
  override_reason :: string
  signature :: string

text \<open>
  The state the API process reads and writes: the two module-level tables, the files
  \<open>save_file\<close> has written (path and bytes) and the tasks handed to
  \<open>process_claim_async.apply_async\<close> (task id, \<open>claim_data\<close>, \<open>file_paths\<close>).
\<close>

record app_state =
  IMMUTABLE_LOGS :: "override_log list"
  IDEMPOTENCY_DB :: str_dict
  saved_files :: "(string \<times> string) list"
  dispatched :: "(string \<times> claim_data \<times> str_dict) list"

text \<open>
  What the API process takes from outside: the working directory, \<open>os.makedirs\<close>, writing
  a file (\<open>open\<close> and \<open>shutil.copyfileobj\<close>), \<open>json.loads\<close> and \<open>apply_async\<close>.
  \<open>Some e\<close> and \<open>Inl e\<close> are a raised exception with text \<open>e\<close>. The fresh
  \<open>uuid.uuid4()\<close> and the clock reading \<open>datetime.utcnow().isoformat()\<close> are arguments
  of the two operations.
\<close>

record api_env =
  getcwd :: string
  makedirs :: "string \<Rightarrow> string option"
  write_file :: "string \<Rightarrow> string \<Rightarrow> string option"
  json_loads :: "string \<Rightarrow> string + json"
  apply_async :: "string \<Rightarrow> claim_data \<Rightarrow> str_dict \<Rightarrow> string option"

text \<open>\<open>os.path.join\<close> on two components (POSIX): an absolute second component replaces
  the first.\<close>

definition path_join :: "string \<Rightarrow> string \<Rightarrow> string" where
  "path_join a b =
     (if startswith b ''/'' then b
      else if a = [] \<or> last a = CHR ''/'' then a @ b
      else a @ ''/'' @ b)"

text \<open>Line 46: the text that is hashed when no key comes with the form.\<close>

definition key_raw :: "form \<Rightarrow> string" where
  "key_raw f =
     form_verified_patient_id f @ ''-'' @ filename (form_dicom_file f) @ ''-''
       @ form_doctor_diagnosis f"

text \<open>Lines 45 to 47: the key after the first \<open>if\<close>.\<close>

definition idempotency_key_of :: "form \<Rightarrow> string" where
  "idempotency_key_of f =
     (case form_idempotency_key f of
        None \<Rightarrow> sha256_hexdigest (key_raw f)
      | Some k \<Rightarrow> if k = [] then sha256_hexdigest (key_raw f) else k)"

text \<open>\<open>save_file\<close> (lines 62 to 65) on the pair of the state and \<open>file_paths\<close>; the
  first component of the result is the exception, if one was raised.\<close>

definition save_file ::
  "api_env \<Rightarrow> string \<Rightarrow> upload \<Rightarrow> string \<Rightarrow> app_state \<times> str_dict
     \<Rightarrow> string option \<times> app_state \<times> str_dict" where
  "save_file env temp_dir up key sf =
     (let path = path_join temp_dir (filename up)
      in case write_file env path (file_bytes up) of
           Some e \<Rightarrow> (Some e, sf)
         | None \<Rightarrow>
             (None,
              (fst sf)\<lparr>saved_files := saved_files (fst sf) @ [(path, file_bytes up)]\<rparr>,
              (snd sf)(key \<mapsto> path)))"

text \<open>Lines 67 to 71: the uploads that are there are saved in order; the first exception
  ends the sequence.\<close>

fun save_files ::
  "api_env \<Rightarrow> string \<Rightarrow> (upload option \<times> string) list \<Rightarrow> app_state \<times> str_dict
     \<Rightarrow> string option \<times> app_state \<times> str_dict" where
  "save_files env temp_dir [] sf = (None, sf)"
| "save_files env temp_dir ((None, key) # rest) sf = save_files env temp_dir rest sf"
| "save_files env temp_dir ((Some up, key) # rest) sf =
     (case save_file env temp_dir up key sf of
        (Some e, sf1) \<Rightarrow> (Some e, sf1)
      | (None, sf1) \<Rightarrow> save_files env temp_dir rest sf1)"

text \<open>Lines 74 and 75: \<open>json.loads(payload) if payload else {}\<close>.\<close>

definition loads_or_empty :: "api_env \<Rightarrow> string option \<Rightarrow> string + json" where
  "loads_or_empty env payload =
     (case payload of
        None \<Rightarrow> Inr (JObject [])
      | Some p \<Rightarrow> if p = [] then Inr (JObject []) else json_loads env p)"

datatype submit_response =
    ClaimAccepted string string
  | DuplicateSubmission string
  | Raised string

text \<open>
  \<open>submit_claim_async\<close>: \<open>ClaimAccepted task_id idempotency_key\<close> is the 200 answer,
  \<open>DuplicateSubmission original_task_id\<close> the 409 answer, \<open>Raised e\<close> an exception that
  leaves the handler. The handler has no \<open>await\<close>, so it runs from start to end without
  another request in between.
\<close>

definition submit_claim_async ::
  "api_env \<Rightarrow> string \<Rightarrow> form \<Rightarrow> app_state \<Rightarrow> submit_response \<times> app_state" where
  "submit_claim_async env new_id f s =
     (let idempotency_key = idempotency_key_of f
      in case IDEMPOTENCY_DB s idempotency_key of
           Some original \<Rightarrow> (DuplicateSubmission original, s)
         | None \<Rightarrow>
     (let temp_dir = path_join (path_join (getcwd env) ''temp_uploads'') new_id
      in case makedirs env temp_dir of
           Some e \<Rightarrow> (Raised e, s)
         | None \<Rightarrow>
     (case save_files env temp_dir
             [(Some (form_dicom_file f), ''dicom''),
              (form_lab_report_pdf f, ''lab_pdf''),
              (form_geotagged_patient_photo f, ''patient_photo''),
              (form_identity_document_image f, ''identity_doc''),
              (form_consent_form_image f, ''consent_image'')]
             (s, Map.empty) of
        (Some e, s1, file_paths) \<Rightarrow> (Raised e, s1)
      | (None, s1, file_paths) \<Rightarrow>
     (case loads_or_empty env (form_verified_identity_payload f) of
        Inl e \<Rightarrow> (Raised e, s1)
      | Inr identity \<Rightarrow>
     (case loads_or_empty env (form_digital_consent_payload f) of
        Inl e \<Rightarrow> (Raised e, s1)
      | Inr consent \<Rightarrow>
     (let cd = \<lparr>verified_patient_id = form_verified_patient_id f,
                doctor_diagnosis = form_doctor_diagnosis f,
                identity_data = identity,
                consent_data = consent,
                patient_geotag = form_patient_geotag f\<rparr>
      in case apply_async env new_id cd file_paths of
           Some e \<Rightarrow> (Raised e, s1)
         | None \<Rightarrow>
             (ClaimAccepted new_id idempotency_key,
              s1\<lparr>dispatched := dispatched s1 @ [(new_id, cd, file_paths)],
                 IDEMPOTENCY_DB := (IDEMPOTENCY_DB s1)(idempotency_key \<mapsto> new_id)\<rparr>)))))))"

text \<open>\<open>doctor_override\<close> (lines 99 to 103): the entry that is appended and returned
  under \<open>log\<close>, made at the clock reading \<open>now\<close>.\<close>

definition override_entry :: "string \<Rightarrow> string \<Rightarrow> string \<Rightarrow> string \<Rightarrow> override_log" where
  "override_entry now tid did why =
     \<lparr>event = ''OVERRIDE'', timestamp = now, task_id = tid, doctor_id = did,
      override_reason = why, signature = sha256_hexdigest (tid @ did @ why)\<rparr>"

definition doctor_override ::
  "string \<Rightarrow> string \<Rightarrow> string \<Rightarrow> string \<Rightarrow> app_state \<Rightarrow> override_log \<times> app_state" where
  "doctor_override now tid did why s =
     (let log = override_entry now tid did why
      in (log, s\<lparr>IMMUTABLE_LOGS := IMMUTABLE_LOGS s @ [log]\<rparr>))"

definition view_logs :: "app_state \<Rightarrow> override_log list" where
  "view_logs s = IMMUTABLE_LOGS s"

text \<open>
  The calls that reach the API process, and the state after a sequence of them. Only
  \<open>submit_claim_async\<close> and \<open>doctor_override\<close> write to the state; \<open>ReadOnly\<close> stands for
  the handlers that do not (\<open>get_claim_status\<close>, \<open>view_logs\<close>, \<open>mock_hce_submit\<close>).
\<close>

datatype api_call =
    Submit api_env string form
  | Override string string string string
  | ReadOnly

fun api_step :: "api_call \<Rightarrow> app_state \<Rightarrow> app_state" where
  "api_step (Submit env nid f) s = snd (submit_claim_async env nid f s)"
| "api_step (Override now tid did why) s = snd (doctor_override now tid did why s)"
| "api_step ReadOnly s = s"

fun run_calls :: "api_call list \<Rightarrow> app_state \<Rightarrow> app_state" where
  "run_calls [] s = s"
| "run_calls (c # cs) s = run_calls cs (api_step c s)"

section \<open>Sample runs\<close>

text \<open>A worker environment in which every library call succeeds, a claim and its files,
  and the result the task returns for them.\<close>

definition demo_env :: worker_env where
  "demo_env =
     \<lparr>update_state = (\<lambda>st step. None),
      dcmread = (\<lambda>p. if p = ''/up/scan.dcm''
                      then Inr [''PatientID'' \<mapsto> ''P123 '', ''Modality'' \<mapsto> ''CT'']
                      else Inl ''bad file''),
      fitz_open = (\<lambda>p. Inr \<lparr>pages = [Inr ''Hb: '', Inr ''Normal''], close_doc = None\<rparr>),
      image_to_string = (\<lambda>p. Inr ''signed''),
      fhir_bundle = (\<lambda>pid diag. Inr (JObject [(''resourceType'', JString ''Bundle'')]))\<rparr>"

definition demo_claim :: claim_data where
  "demo_claim =
     \<lparr>verified_patient_id = ''P123'', doctor_diagnosis = ''Wrist Fracture'',
      identity_data = JObject [], consent_data = JObject [(''granted'', JBool True)],
      patient_geotag = Some ''19.07,72.87''\<rparr>"

definition demo_paths :: str_dict where
  "demo_paths = [''dicom'' \<mapsto> ''/up/scan.dcm'']"

definition demo_result :: results where
  "demo_result =
     \<lparr>task_status = COMPLETED,
      steps_completed = [''DICOM''],
      ocr_results = Map.empty,
      dicom_metadata =
        [''PatientID'' \<mapsto> ''P123 '', ''PatientName'' \<mapsto> ''N/A'', ''AccessionNumber'' \<mapsto> ''N/A'',
         ''StudyDate'' \<mapsto> ''N/A'', ''Modality'' \<mapsto> ''CT''],
      lab_report_text = ''N/A'',
      validation_result = \<lparr>status = PASSED, failures = None\<rparr>,
      fhir_bundle_out = Some (JObject [(''resourceType'', JString ''Bundle'')])\<rparr>"

definition json_loads_sample :: "string \<Rightarrow> string + json" where
  "json_loads_sample s =
     (if s = ''{}'' then Inr (JObject [])
      else if s = ''[]'' then Inr (JArray [])
      else if s = ''null'' then Inr JNull
      else if s = ''true'' then Inr (JBool True)
      else if s = ''[1]'' then Inr (JArray [JNumber 1])
      else Inl ''Expecting value: line 1 column 1 (char 0)'')"

definition demo_api_env :: api_env where
  "demo_api_env =
     \<lparr>getcwd = ''/srv'',
      makedirs = (\<lambda>d. None),
      write_file = (\<lambda>p b. None),
      json_loads = json_loads_sample,
      apply_async = (\<lambda>t cd fp. None)\<rparr>"

definition empty_state :: app_state where
  "empty_state =
     \<lparr>IMMUTABLE_LOGS = [], IDEMPOTENCY_DB = Map.empty, saved_files = [], dispatched = []\<rparr>"

definition demo_form :: form where
  "demo_form =
     \<lparr>form_verified_patient_id = ''P123'',
      form_doctor_diagnosis = ''cough'',
      form_verified_identity_payload = None,
      form_digital_consent_payload = Some ''{}'',
      form_identity_document_image = None,
      form_consent_form_image = None,
      form_dicom_file = \<lparr>filename = ''scan.dcm'', file_bytes = ''DICM''\<rparr>,
      form_lab_report_pdf = None,
      form_geotagged_patient_photo = None,
      form_patient_geotag = None,
      form_idempotency_key = None\<rparr>"

definition dispatched_claim :: "app_state \<Rightarrow> claim_data" where
  "dispatched_claim s = fst (snd (last (dispatched s)))"

definition dispatched_paths :: "app_state \<Rightarrow> str_dict" where
  "dispatched_paths s = snd (snd (last (dispatched s)))"

definition missing_consent :: finding where
  "missing_consent =
     \<lparr>confidence = CRITICAL,
      reason = ''Missing Patient Consent (Payload or Image required).''\<rparr>"

definition form_a :: form where
  "form_a = demo_form\<lparr>form_verified_patient_id := ''P-1'',
                       form_dicom_file := \<lparr>filename = ''2.dcm'', file_bytes = ''DICM''\<rparr>\<rparr>"

definition form_b :: form where
  "form_b = demo_form\<lparr>form_verified_patient_id := ''P'',
                       form_dicom_file := \<lparr>filename = ''1-2.dcm'', file_bytes = ''DICM''\<rparr>\<rparr>"

definition image_form :: form where
  "image_form = demo_form\<lparr>form_digital_consent_payload := None,
                           form_consent_form_image :=
                             Some \<lparr>filename = ''consent.png'', file_bytes = ''PNG''\<rparr>\<rparr>"

definition demo_state :: app_state where
  "demo_state =
     \<lparr>IMMUTABLE_LOGS = [],
      IDEMPOTENCY_DB = [idempotency_key_of demo_form \<mapsto> ''t1''],
      saved_files = [(''/srv/temp_uploads/t1/scan.dcm'', ''DICM'')],
      dispatched =
        [(''t1'',
          \<lparr>verified_patient_id = ''P123'', doctor_diagnosis = ''cough'',
           identity_data = JObject [], consent_data = JObject [], patient_geotag = None\<rparr>,
          [''dicom'' \<mapsto> ''/srv/temp_uploads/t1/scan.dcm''])]\<rparr>"

section \<open>Auxiliary facts\<close>

text \<open>Unfolding sets for runs on concrete inputs.\<close>

lemmas py_eval =
  strip_def py_isspace_def lower_def lower_char_def char_of_def bit_Suc_0_iff
  truthy_get_def str_get_def truthy_opt_def

lemmas engine_eval =
  run_validation_engine_def engine_failures_def aggregate_def rule1_def rule2_def rule3_def
  rule4_def


lemma process_body_Inr:
  assumes "process_body env cd fp = Inr r"
  shows "\<exists>p acc. update_state env PROCESSING ''Processing DICOM...'' = None
           \<and> fp ''dicom'' = Some p
           \<and> ocr_loop env fp [(''lab_pdf'', ''LAB_PDF''), (''identity_doc'', ''IDENTITY_OCR''),
                 (''consent_image'', ''CONSENT_OCR'')]
                \<lparr>acc_steps = [''DICOM''], acc_ocr = Map.empty, acc_lab = None\<rparr> = Inr acc
           \<and> update_state env VALIDATING ''Running AI Validation Agents...'' = None
           \<and> dicom_metadata r = process_dicom env p
           \<and> lab_report_text r = (case acc_lab acc of None \<Rightarrow> ''N/A'' | Some t \<Rightarrow> t)
           \<and> ocr_results r = acc_ocr acc
           \<and> steps_completed r = acc_steps acc
           \<and> validation_result r
                = run_validation_engine cd (dicom_metadata r) (lab_report_text r) fp (ocr_results r)
           \<and> fhir_bundle_out r
                = (if status (validation_result r) = FAILED_CRITICAL then None
                   else Some (generate_mock_fhir env cd))
           \<and> task_status r
                = (if status (validation_result r) = FAILED_CRITICAL then FAILED
                   else if status (validation_result r) = FLAGGED_HIGH then FLAGGED
                   else COMPLETED)"
proof -
  from assms obtain p where u1: "update_state env PROCESSING ''Processing DICOM...'' = None"
    and p: "fp ''dicom'' = Some p"
    by (auto simp: process_body_def split: option.splits)
  from assms u1 p obtain acc where
    acc: "ocr_loop env fp [(''lab_pdf'', ''LAB_PDF''), (''identity_doc'', ''IDENTITY_OCR''),
                 (''consent_image'', ''CONSENT_OCR'')]
                \<lparr>acc_steps = [''DICOM''], acc_ocr = Map.empty, acc_lab = None\<rparr> = Inr acc"
    by (auto simp: process_body_def Let_def simp del: ocr_loop.simps split: sum.splits)
  from assms u1 p acc have u2: "update_state env VALIDATING ''Running AI Validation Agents...'' = None"
    by (auto simp: process_body_def Let_def simp del: ocr_loop.simps split: option.splits)
  from assms u1 p acc u2 have r: "r = (let dicom_meta = process_dicom env p;
       lab_text = (case acc_lab acc of None \<Rightarrow> ''N/A'' | Some t \<Rightarrow> t);
       val_res = run_validation_engine cd dicom_meta lab_text fp (acc_ocr acc);
          fhir = (if status val_res \<in> set [PASSED, FLAGGED_HIGH, PASSED_MEDIUM]
                  then Some (generate_mock_fhir env cd) else None);
          final = (if status val_res = FAILED_CRITICAL then FAILED
                   else if status val_res = FLAGGED_HIGH then FLAGGED
                   else COMPLETED)
      in \<lparr>task_status = final,
              steps_completed = acc_steps acc,
              ocr_results = acc_ocr acc,
              dicom_metadata = dicom_meta,
              lab_report_text = lab_text,
              validation_result = val_res,
              fhir_bundle_out = fhir\<rparr>)"
    by (simp add: process_body_def Let_def del: ocr_loop.simps)
  show ?thesis
    using u1 p acc u2
    by (cases "status (run_validation_engine cd (process_dicom env p)
                 (case acc_lab acc of None \<Rightarrow> ''N/A'' | Some t \<Rightarrow> t) fp (acc_ocr acc))")
       (simp_all add: r Let_def del: ocr_loop.simps)
qed


lemma confidence_cases:
  "confidence f \<noteq> CRITICAL \<Longrightarrow> confidence f \<noteq> HIGH \<Longrightarrow> confidence f = MEDIUM"
  by (cases "confidence f") simp_all

lemma demo_dicom:
  "process_dicom demo_env ''/up/scan.dcm''
     = [''PatientID'' \<mapsto> ''P123 '', ''PatientName'' \<mapsto> ''N/A'', ''AccessionNumber'' \<mapsto> ''N/A'',
        ''StudyDate'' \<mapsto> ''N/A'', ''Modality'' \<mapsto> ''CT'']"
  by (simp add: process_dicom_def demo_env_def ds_get_def)

lemma demo_engine:
  "run_validation_engine demo_claim
     [''PatientID'' \<mapsto> ''P123 '', ''PatientName'' \<mapsto> ''N/A'', ''AccessionNumber'' \<mapsto> ''N/A'',
        ''StudyDate'' \<mapsto> ''N/A'', ''Modality'' \<mapsto> ''CT'']
     ''N/A'' demo_paths Map.empty = \<lparr>status = PASSED, failures = None\<rparr>"
  by (simp add: demo_claim_def demo_paths_def engine_eval py_eval)

lemma demo_run: "process_claim_async demo_env demo_claim demo_paths = Results demo_result"
proof -
  have u: "update_state demo_env = (\<lambda>st step. None)"
    by (simp add: demo_env_def)
  have l: "ocr_loop demo_env demo_paths
             [(''lab_pdf'', ''LAB_PDF''), (''identity_doc'', ''IDENTITY_OCR''),
              (''consent_image'', ''CONSENT_OCR'')]
             \<lparr>acc_steps = [''DICOM''], acc_ocr = Map.empty, acc_lab = None\<rparr>
           = Inr \<lparr>acc_steps = [''DICOM''], acc_ocr = Map.empty, acc_lab = None\<rparr>"
    by (simp add: demo_paths_def)
  have f: "generate_mock_fhir demo_env demo_claim = JObject [(''resourceType'', JString ''Bundle'')]"
    by (simp add: generate_mock_fhir_def demo_env_def)
  have p: "demo_paths ''dicom'' = Some ''/up/scan.dcm''"
    by (simp add: demo_paths_def)
  show ?thesis
    by (simp add: process_claim_async_def process_body_def u l f p demo_dicom demo_engine
        demo_result_def Let_def del: ocr_loop.simps)
qed





lemma ocr_loop_lab_absent:
  assumes "\<not> truthy_get fp ''lab_pdf''"
  shows "ocr_loop env fp kls acc = Inr acc' \<Longrightarrow> acc_lab acc' = acc_lab acc"
proof (induction kls arbitrary: acc)
  case Nil
  then show ?case by simp
next
  case (Cons kl kls)
  obtain key label where kl: "kl = (key, label)" by (cases kl)
  show ?case
  proof (cases "truthy_get fp key")
    case False
    have "ocr_loop env fp (kl # kls) acc = ocr_loop env fp kls acc"
    proof (cases "fp key")
      case None
      then show ?thesis by (simp add: kl)
    next
      case (Some path)
      with False have "path = []" by (simp add: truthy_get_def)
      with Some show ?thesis by (simp add: kl)
    qed
    with Cons show ?thesis by simp
  next
    case True
    with assms have ne: "key \<noteq> ''lab_pdf''" by auto
    from True obtain path where path: "fp key = Some path" "path \<noteq> []"
      by (auto simp: truthy_get_def split: option.splits)
    from Cons.prems obtain acc1 where
      "ocr_loop env fp kls acc1 = Inr acc'" "acc_lab acc1 = acc_lab acc"
      using ne path by (auto simp: kl Let_def split: option.splits)
    with Cons.IH show ?thesis by metis
  qed
qed

lemma rule_confidences:
  "\<forall>f \<in> set (rule1 cd dm). confidence f = CRITICAL"
  "\<forall>f \<in> set (rule3 cd fp). confidence f = MEDIUM"
  "\<forall>f \<in> set (rule4 cd fp). confidence f = CRITICAL"
  "\<forall>f \<in> set (rule2 cd lab). confidence f = HIGH"
  by (simp_all add: rule1_def rule2_def rule3_def rule4_def Let_def)

lemma rule2_not_available: "rule2 cd ''N/A'' = []"
  by (simp add: rule2_def lower_def lower_char_def char_of_def bit_Suc_0_iff Let_def)

lemma aggregate_failures:
  "failures (aggregate fs) = (if fs = [] then None else Some fs)"
  by (simp add: aggregate_def)

lemma ocr_loop_raises:
  assumes "(key, label) \<in> set kls" "truthy_get fp key"
    and "update_state env PROCESSING (''Reading '' @ label @ ''...'') = Some e"
  shows "\<exists>e'. ocr_loop env fp kls acc = Inl e'"
  using assms(1)
proof (induction kls arbitrary: acc)
  case Nil
  then show ?case by simp
next
  case (Cons kl kls)
  obtain k l where kl: "kl = (k, l)" by (cases kl)
  show ?case
  proof (cases "kl = (key, label)")
    case True
    from assms(2) obtain path where "fp key = Some path" "path \<noteq> []"
      by (auto simp: truthy_get_def split: option.splits)
    with True assms(3) show ?thesis by simp
  next
    case False
    with Cons.prems have "(key, label) \<in> set kls" by simp
    from Cons.IH [OF this] have ih: "\<And>a. \<exists>e'. ocr_loop env fp kls a = Inl e'" by blast
    show ?thesis
    proof (cases "fp k")
      case None
      with ih show ?thesis by (simp add: kl)
    next
      case (Some path)
      show ?thesis
      proof (cases "path = []")
        case True
        with Some ih show ?thesis by (simp add: kl)
      next
        case ne: False
        show ?thesis
        proof (cases "update_state env PROCESSING (''Reading '' @ l @ ''...'')")
          case None
          with Some ne ih show ?thesis by (simp add: kl Let_def)
        next
          case (Some e2)
          with \<open>fp k = Some path\<close> ne show ?thesis by (simp add: kl)
        qed
      qed
    qed
  qed
qed

lemma ocr_loop_fault_source:
  "ocr_loop env fp kls acc = Inl e \<Longrightarrow> \<exists>step. update_state env PROCESSING step = Some e"
proof (induction kls arbitrary: acc)
  case Nil
  then show ?case by simp
next
  case (Cons kl kls)
  obtain k l where kl: "kl = (k, l)" by (cases kl)
  show ?case
  proof (cases "fp k")
    case None
    with Cons show ?thesis by (simp add: kl)
  next
    case (Some path)
    show ?thesis
    proof (cases "path = []")
      case True
      with Some Cons show ?thesis by (simp add: kl)
    next
      case ne: False
      show ?thesis
      proof (cases "update_state env PROCESSING (''Reading '' @ l @ ''...'')")
        case None
        with Some ne Cons.prems obtain a where "ocr_loop env fp kls a = Inl e"
          by (auto simp: kl Let_def)
        with Cons.IH show ?thesis by blast
      next
        case (Some e2)
        with \<open>fp k = Some path\<close> ne Cons.prems have "e2 = e" by (simp add: kl)
        with Some show ?thesis by blast
      qed
    qed
  qed
qed

lemma process_body_Inl:
  assumes "process_body env cd fp = Inl e"
  shows "(fp ''dicom'' = None \<and> e = [CHR 0x27] @ ''dicom'' @ [CHR 0x27])
         \<or> (\<exists>st step. update_state env st step = Some e)"
proof (cases "update_state env PROCESSING ''Processing DICOM...''")
  case (Some e1)
  with assms have "e1 = e" by (simp add: process_body_def)
  with Some show ?thesis by blast
next
  case u1: None
  show ?thesis
  proof (cases "fp ''dicom''")
    case None
    with u1 assms show ?thesis by (simp add: process_body_def)
  next
    case (Some p)
    let ?loop = "ocr_loop env fp [(''lab_pdf'', ''LAB_PDF''), (''identity_doc'', ''IDENTITY_OCR''),
                 (''consent_image'', ''CONSENT_OCR'')]
                \<lparr>acc_steps = [''DICOM''], acc_ocr = Map.empty, acc_lab = None\<rparr>"
    show ?thesis
    proof (cases ?loop)
      case (Inl e2)
      with u1 Some assms have "e2 = e"
        by (simp add: process_body_def Let_def del: ocr_loop.simps)
      with Inl ocr_loop_fault_source show ?thesis by blast
    next
      case (Inr acc)
      show ?thesis
      proof (cases "update_state env VALIDATING ''Running AI Validation Agents...''")
        case None
        with u1 Some Inr assms show ?thesis
          by (simp add: process_body_def Let_def del: ocr_loop.simps)
      next
        case (Some e3)
        with u1 \<open>fp ''dicom'' = Some p\<close> Inr assms have "e3 = e"
          by (simp add: process_body_def Let_def del: ocr_loop.simps)
        with Some show ?thesis by blast
      qed
    qed
  qed
qed

lemma read_pages_all:
  "read_pages (map Inr ts) acc = Inr (acc @ concat ts)"
  by (induction ts arbitrary: acc) simp_all

lemma read_pages_fault:
  "read_pages (map Inr ts @ Inl e # rest) acc = Inl e"
  by (induction ts arbitrary: acc) simp_all

lemma path_join_nonempty: "a \<noteq> [] \<Longrightarrow> path_join a b \<noteq> []"
  by (cases b) (auto simp: path_join_def)

lemma temp_dir_nonempty: "path_join (path_join cwd ''temp_uploads'') nid \<noteq> []"
  by (rule path_join_nonempty) (simp add: path_join_def)

lemma save_file_result:
  "save_file env td up key sf = (None, sf') \<Longrightarrow>
     snd sf' = (snd sf)(key \<mapsto> path_join td (filename up))
     \<and> IMMUTABLE_LOGS (fst sf') = IMMUTABLE_LOGS (fst sf)
     \<and> IDEMPOTENCY_DB (fst sf') = IDEMPOTENCY_DB (fst sf)
     \<and> dispatched (fst sf') = dispatched (fst sf)"
  by (auto simp: save_file_def Let_def split: option.splits)

lemma save_file_frame:
  "save_file env td up key sf = (r, sf') \<Longrightarrow>
     IMMUTABLE_LOGS (fst sf') = IMMUTABLE_LOGS (fst sf)
     \<and> IDEMPOTENCY_DB (fst sf') = IDEMPOTENCY_DB (fst sf)
     \<and> dispatched (fst sf') = dispatched (fst sf)"
  by (auto simp: save_file_def Let_def split: option.splits)

lemma save_files_frame:
  "save_files env td ups sf = (r, sf') \<Longrightarrow>
     IMMUTABLE_LOGS (fst sf') = IMMUTABLE_LOGS (fst sf)
     \<and> IDEMPOTENCY_DB (fst sf') = IDEMPOTENCY_DB (fst sf)
     \<and> dispatched (fst sf') = dispatched (fst sf)"
proof (induction ups arbitrary: sf)
  case Nil
  then show ?case by simp
next
  case (Cons u ups)
  obtain uo key where u: "u = (uo, key)" by (cases u)
  show ?case
  proof (cases uo)
    case None
    with Cons u show ?thesis by simp
  next
    case (Some up)
    obtain r1 sf1 where s1: "save_file env td up key sf = (r1, sf1)"
      by (cases "save_file env td up key sf")
    show ?thesis
    proof (cases r1)
      case None
      with Cons.prems u Some s1 have "save_files env td ups sf1 = (r, sf')" by simp
      from Cons.IH [OF this] save_file_frame [OF s1] show ?thesis by simp
    next
      case (Some e)
      with Cons.prems u \<open>uo = Some up\<close> s1 have "sf' = sf1" by simp
      with save_file_frame [OF s1] show ?thesis by simp
    qed
  qed
qed

lemma save_files_paths:
  assumes "td \<noteq> []"
  shows "save_files env td ups sf = (None, sf') \<Longrightarrow>
     truthy_get (snd sf') k \<longleftrightarrow> truthy_get (snd sf) k \<or> (\<exists>up. (Some up, k) \<in> set ups)"
proof (induction ups arbitrary: sf)
  case Nil
  then show ?case by simp
next
  case (Cons u ups)
  obtain uo key where u: "u = (uo, key)" by (cases u)
  show ?case
  proof (cases uo)
    case None
    with Cons u show ?thesis by simp
  next
    case (Some up)
    obtain r1 sf1 where s1: "save_file env td up key sf = (r1, sf1)"
      by (cases "save_file env td up key sf")
    show ?thesis
    proof (cases r1)
      case None
      with Cons.prems u Some s1 have rest: "save_files env td ups sf1 = (None, sf')" by simp
      from s1 None save_file_result have "snd sf1 = (snd sf)(key \<mapsto> path_join td (filename up))"
        by blast
      then have "truthy_get (snd sf1) k \<longleftrightarrow> truthy_get (snd sf) k \<or> k = key"
        using path_join_nonempty [OF assms] by (auto simp: truthy_get_def)
      with Cons.IH [OF rest] u Some show ?thesis by auto
    next
      case (Some e)
      with Cons.prems u \<open>uo = Some up\<close> s1 show ?thesis by simp
    qed
  qed
qed

lemma submit_accepted:
  assumes "submit_claim_async env nid f s = (ClaimAccepted t k, s')"
  shows "t = nid \<and> k = idempotency_key_of f \<and> IDEMPOTENCY_DB s k = None
       \<and> (\<exists>s1 fp identity consent.
             save_files env (path_join (path_join (getcwd env) ''temp_uploads'') nid)
               [(Some (form_dicom_file f), ''dicom''),
                (form_lab_report_pdf f, ''lab_pdf''),
                (form_geotagged_patient_photo f, ''patient_photo''),
                (form_identity_document_image f, ''identity_doc''),
                (form_consent_form_image f, ''consent_image'')]
               (s, Map.empty) = (None, s1, fp)
           \<and> loads_or_empty env (form_verified_identity_payload f) = Inr identity
           \<and> loads_or_empty env (form_digital_consent_payload f) = Inr consent
           \<and> s' = s1\<lparr>dispatched := dispatched s1 @
                        [(nid, \<lparr>verified_patient_id = form_verified_patient_id f,
                                doctor_diagnosis = form_doctor_diagnosis f,
                                identity_data = identity,
                                consent_data = consent,
                                patient_geotag = form_patient_geotag f\<rparr>, fp)],
                     IDEMPOTENCY_DB := (IDEMPOTENCY_DB s1)(k \<mapsto> nid)\<rparr>)"
proof -
  let ?k = "idempotency_key_of f"
  let ?td = "path_join (path_join (getcwd env) ''temp_uploads'') nid"
  let ?ups = "[(Some (form_dicom_file f), ''dicom''),
                (form_lab_report_pdf f, ''lab_pdf''),
                (form_geotagged_patient_photo f, ''patient_photo''),
                (form_identity_document_image f, ''identity_doc''),
                (form_consent_form_image f, ''consent_image'')]"
  from assms have db: "IDEMPOTENCY_DB s ?k = None"
    by (auto simp: submit_claim_async_def Let_def simp del: save_files.simps
          split: option.splits)
  from assms db have mk: "makedirs env ?td = None"
    by (auto simp: submit_claim_async_def Let_def simp del: save_files.simps
          split: option.splits)
  obtain r1 s1 fp where sv: "save_files env ?td ?ups (s, Map.empty) = (r1, s1, fp)"
    by (cases "save_files env ?td ?ups (s, Map.empty)")
  from assms db mk sv have r1: "r1 = None"
    by (cases r1) (simp_all add: submit_claim_async_def Let_def del: save_files.simps)
  from assms db mk sv r1 obtain identity where
    idn: "loads_or_empty env (form_verified_identity_payload f) = Inr identity"
    by (cases "loads_or_empty env (form_verified_identity_payload f)")
       (simp_all add: submit_claim_async_def Let_def del: save_files.simps)
  from assms db mk sv r1 idn obtain consent where
    con: "loads_or_empty env (form_digital_consent_payload f) = Inr consent"
    by (cases "loads_or_empty env (form_digital_consent_payload f)")
       (simp_all add: submit_claim_async_def Let_def del: save_files.simps)
  let ?cd = "\<lparr>verified_patient_id = form_verified_patient_id f,
                                doctor_diagnosis = form_doctor_diagnosis f,
                                identity_data = identity,
                                consent_data = consent,
                                patient_geotag = form_patient_geotag f\<rparr>"
  from assms db mk sv r1 idn con have
    fin: "t = nid \<and> k = ?k
          \<and> s' = s1\<lparr>dispatched := dispatched s1 @ [(nid, ?cd, fp)],
                     IDEMPOTENCY_DB := (IDEMPOTENCY_DB s1)(k \<mapsto> nid)\<rparr>"
    by (cases "apply_async env nid ?cd fp")
       (auto simp: submit_claim_async_def Let_def simp del: save_files.simps)
  from fin db sv r1 idn con show ?thesis
    by blast
qed

lemma submit_dispatched:
  assumes "submit_claim_async env nid f s = (ClaimAccepted t k, s')"
  shows "loads_or_empty env (form_digital_consent_payload f)
           = Inr (consent_data (dispatched_claim s'))
       \<and> (\<forall>key. truthy_get (dispatched_paths s') key \<longleftrightarrow>
             (\<exists>up. (Some up, key) \<in> set
                [(Some (form_dicom_file f), ''dicom''),
                 (form_lab_report_pdf f, ''lab_pdf''),
                 (form_geotagged_patient_photo f, ''patient_photo''),
                 (form_identity_document_image f, ''identity_doc''),
                 (form_consent_form_image f, ''consent_image'')]))
       \<and> IDEMPOTENCY_DB s' = (IDEMPOTENCY_DB s)(k \<mapsto> t)"
proof -
  let ?td = "path_join (path_join (getcwd env) ''temp_uploads'') nid"
  let ?ups = "[(Some (form_dicom_file f), ''dicom''),
                (form_lab_report_pdf f, ''lab_pdf''),
                (form_geotagged_patient_photo f, ''patient_photo''),
                (form_identity_document_image f, ''identity_doc''),
                (form_consent_form_image f, ''consent_image'')]"
  from submit_accepted [OF assms] obtain s1 fp identity consent where
    t: "t = nid"
    and sv: "save_files env ?td ?ups (s, Map.empty) = (None, s1, fp)"
    and con: "loads_or_empty env (form_digital_consent_payload f) = Inr consent"
    and s': "s' = s1\<lparr>dispatched := dispatched s1 @
                        [(nid, \<lparr>verified_patient_id = form_verified_patient_id f,
                                doctor_diagnosis = form_doctor_diagnosis f,
                                identity_data = identity,
                                consent_data = consent,
                                patient_geotag = form_patient_geotag f\<rparr>, fp)],
                     IDEMPOTENCY_DB := (IDEMPOTENCY_DB s1)(k \<mapsto> nid)\<rparr>"
    by blast
  have cd: "consent_data (dispatched_claim s') = consent"
    and fp: "dispatched_paths s' = fp"
    by (simp_all add: s' dispatched_claim_def dispatched_paths_def)
  from save_files_frame [OF sv] have db: "IDEMPOTENCY_DB s1 = IDEMPOTENCY_DB s"
    by simp
  have paths: "\<forall>key. truthy_get fp key \<longleftrightarrow> (\<exists>up. (Some up, key) \<in> set ?ups)"
    using save_files_paths [OF temp_dir_nonempty sv] by (simp add: truthy_get_def)
  have a: "loads_or_empty env (form_digital_consent_payload f)
           = Inr (consent_data (dispatched_claim s'))"
    using con cd by simp
  have b: "\<forall>key. truthy_get (dispatched_paths s') key \<longleftrightarrow>
             (\<exists>up. (Some up, key) \<in> set ?ups)"
    using paths fp by simp
  have c: "IDEMPOTENCY_DB s' = (IDEMPOTENCY_DB s)(k \<mapsto> t)"
    by (simp add: s' db t)
  show ?thesis by (intro conjI a b c)
qed

lemma other_rules_not_missing_consent:
  "missing_consent \<notin> set (rule1 cd dm)"
  "missing_consent \<notin> set (rule2 cd lab)"
  "missing_consent \<notin> set (rule3 cd fp)"
  by (simp_all add: rule1_def rule2_def rule3_def Let_def missing_consent_def)

lemmas api_eval =
  submit_claim_async_def demo_api_env_def empty_state_def save_file_def loads_or_empty_def
  json_loads_sample_def path_join_def Let_def

lemma demo_submit:
  "submit_claim_async demo_api_env ''t1'' demo_form empty_state
     = (ClaimAccepted ''t1'' (idempotency_key_of demo_form), demo_state)"
proof -
  have k: "IDEMPOTENCY_DB empty_state (idempotency_key_of demo_form) = None"
    by (simp add: empty_state_def)
  show ?thesis
    unfolding submit_claim_async_def k Let_def
    by (simp add: demo_api_env_def empty_state_def save_file_def loads_or_empty_def
          json_loads_sample_def path_join_def demo_state_def Let_def demo_form_def)
qed

lemma image_submit:
  "fst (submit_claim_async demo_api_env ''t1'' image_form empty_state)
     = ClaimAccepted ''t1'' (idempotency_key_of image_form)"
proof -
  have k: "IDEMPOTENCY_DB empty_state (idempotency_key_of image_form) = None"
    by (simp add: empty_state_def)
  show ?thesis
    unfolding submit_claim_async_def k Let_def
    by (simp add: demo_api_env_def empty_state_def save_file_def loads_or_empty_def
          json_loads_sample_def path_join_def Let_def demo_form_def image_form_def)
qed

lemma key_of_no_key:
  "\<not> truthy_opt (form_idempotency_key f) \<Longrightarrow>
     idempotency_key_of f = sha256_hexdigest (key_raw f)"
  by (auto simp: idempotency_key_of_def truthy_opt_def split: option.splits)

lemma rule1_cases:
  "(truthy_get dm ''error'' \<longrightarrow>
      rule1 cd dm = [\<lparr>confidence = CRITICAL,
                      reason = ''DICOM Corrupt: '' @ str_get dm ''error''\<rparr>])
   \<and> (\<not> truthy_get dm ''error''
        \<and> strip (verified_patient_id cd) \<noteq> strip (str_get dm ''PatientID'') \<longrightarrow>
      rule1 cd dm = [\<lparr>confidence = CRITICAL,
                      reason = ''Patient ID Mismatch: Form('' @ strip (verified_patient_id cd)
                               @ '') vs DICOM('' @ strip (str_get dm ''PatientID'') @ '')''\<rparr>])
   \<and> (\<not> truthy_get dm ''error''
        \<and> strip (verified_patient_id cd) = strip (str_get dm ''PatientID'') \<longrightarrow>
      rule1 cd dm = [])"
  by (simp add: rule1_def Let_def)

lemma submission_without_lab_report:
  assumes "submit_claim_async env nid f s = (ClaimAccepted t k, s')"
    and "form_lab_report_pdf f = None"
  shows "\<not> truthy_get (dispatched_paths s') ''lab_pdf''"
proof -
  from submit_dispatched [OF assms(1)]
  have "truthy_get (dispatched_paths s') ''lab_pdf'' \<longleftrightarrow>
             (\<exists>up. (Some up, ''lab_pdf'') \<in> set
                [(Some (form_dicom_file f), ''dicom''),
                 (form_lab_report_pdf f, ''lab_pdf''),
                 (form_geotagged_patient_photo f, ''patient_photo''),
                 (form_identity_document_image f, ''identity_doc''),
                 (form_consent_form_image f, ''consent_image'')])"
    by blast
  with assms(2) show ?thesis by simp
qed

text \<open>The digest of the three bytes \<open>abc\<close>, as FIPS 180-4 gives it.\<close>

lemma sha256_abc:
  "sha256_hexdigest ''abc''
     = ''ba7816bf8f01cfea414140de5dae2223b00361a396177a9cb410ff61f20015ad''"
  by code_simp

lemma submit_db_frame:
  assumes "submit_claim_async env nid f s = (r, s')"
    and "\<forall>t k. r \<noteq> ClaimAccepted t k"
  shows "IDEMPOTENCY_DB s' = IDEMPOTENCY_DB s"
proof (cases "IDEMPOTENCY_DB s (idempotency_key_of f)")
  case (Some orig)
  with assms(1) have "s' = s"
    by (simp add: submit_claim_async_def del: save_files.simps)
  then show ?thesis by simp
next
  case db: None
  let ?td = "path_join (path_join (getcwd env) ''temp_uploads'') nid"
  let ?ups = "[(Some (form_dicom_file f), ''dicom''),
                (form_lab_report_pdf f, ''lab_pdf''),
                (form_geotagged_patient_photo f, ''patient_photo''),
                (form_identity_document_image f, ''identity_doc''),
                (form_consent_form_image f, ''consent_image'')]"
  show ?thesis
  proof (cases "makedirs env ?td")
    case (Some e)
    with assms(1) db have "s' = s"
      by (simp add: submit_claim_async_def Let_def del: save_files.simps)
    then show ?thesis by simp
  next
    case mk: None
    obtain r1 s1 fp where sv: "save_files env ?td ?ups (s, Map.empty) = (r1, s1, fp)"
      by (cases "save_files env ?td ?ups (s, Map.empty)")
    from save_files_frame [OF sv] have fr: "IDEMPOTENCY_DB s1 = IDEMPOTENCY_DB s"
      by simp
    show ?thesis
    proof (cases r1)
      case (Some e)
      with assms(1) db mk sv have "s' = s1"
        by (simp add: submit_claim_async_def Let_def del: save_files.simps)
      with fr show ?thesis by simp
    next
      case r1: None
      show ?thesis
      proof (cases "loads_or_empty env (form_verified_identity_payload f)")
        case (Inl e)
        with assms(1) db mk sv r1 have "s' = s1"
          by (simp add: submit_claim_async_def Let_def del: save_files.simps)
        with fr show ?thesis by simp
      next
        case idn: (Inr identity)
        show ?thesis
        proof (cases "loads_or_empty env (form_digital_consent_payload f)")
          case (Inl e)
          with assms(1) db mk sv r1 idn have "s' = s1"
            by (simp add: submit_claim_async_def Let_def del: save_files.simps)
          with fr show ?thesis by simp
        next
          case con: (Inr consent)
          let ?cd = "\<lparr>verified_patient_id = form_verified_patient_id f,
                                doctor_diagnosis = form_doctor_diagnosis f,
                                identity_data = identity,
                                consent_data = consent,
                                patient_geotag = form_patient_geotag f\<rparr>"
          show ?thesis
          proof (cases "apply_async env nid ?cd fp")
            case (Some e)
            with assms(1) db mk sv r1 idn con have "s' = s1"
              by (simp add: submit_claim_async_def Let_def del: save_files.simps)
            with fr show ?thesis by simp
          next
            case None
            with assms(1) db mk sv r1 idn con
            have "r = ClaimAccepted nid (idempotency_key_of f)"
              by (auto simp: submit_claim_async_def Let_def simp del: save_files.simps)
            with assms(2) show ?thesis by simp
          qed
        qed
      qed
    qed
  qed
qed

lemma submit_keeps_bound_keys:
  assumes "IDEMPOTENCY_DB s k = Some t"
  shows "IDEMPOTENCY_DB (snd (submit_claim_async env nid f s)) k = Some t"
proof -
  obtain r s' where res: "submit_claim_async env nid f s = (r, s')"
    by (cases "submit_claim_async env nid f s")
  show ?thesis
  proof (cases "\<exists>t' k'. r = ClaimAccepted t' k'")
    case True
    then obtain t' k' where r: "r = ClaimAccepted t' k'" by blast
    from res r have acc: "submit_claim_async env nid f s = (ClaimAccepted t' k', s')" by simp
    from submit_accepted [OF acc] have free: "IDEMPOTENCY_DB s k' = None" by blast
    from submit_dispatched [OF acc] have "IDEMPOTENCY_DB s' = (IDEMPOTENCY_DB s)(k' \<mapsto> t')"
      by blast
    moreover from free assms have "k' \<noteq> k" by auto
    ultimately show ?thesis using assms res by simp
  next
    case False
    then have "\<forall>t k. r \<noteq> ClaimAccepted t k" by blast
    from submit_db_frame [OF res this] assms res show ?thesis by simp
  qed
qed

lemma api_step_keeps_bound_keys:
  "IDEMPOTENCY_DB s k = Some t \<Longrightarrow> IDEMPOTENCY_DB (api_step c s) k = Some t"
  by (cases c) (simp_all add: submit_keeps_bound_keys doctor_override_def Let_def)

lemma run_calls_keeps_bound_keys:
  "IDEMPOTENCY_DB s k = Some t \<Longrightarrow> IDEMPOTENCY_DB (run_calls cs s) k = Some t"
  by (induction cs arbitrary: s) (simp_all add: api_step_keeps_bound_keys)

section \<open>The claims\<close>

text \<open>
  C1. For every list of findings the status of the outcome is the highest severity in the
  list: \<open>FAILED_CRITICAL\<close> if a \<open>CRITICAL\<close> finding is in it, else \<open>FLAGGED_HIGH\<close> if a
  \<open>HIGH\<close> one is, else \<open>PASSED_MEDIUM\<close> if a \<open>MEDIUM\<close> one is, else \<open>PASSED\<close>, which
  is the case exactly for the empty list. The status depends on the set of severities
  only, not on the count or the order of the findings.
\<close>

theorem aggregate_ladder:
  "status (aggregate fs) =
     (if \<exists>f \<in> set fs. confidence f = CRITICAL then FAILED_CRITICAL
      else if \<exists>f \<in> set fs. confidence f = HIGH then FLAGGED_HIGH
      else if \<exists>f \<in> set fs. confidence f = MEDIUM then PASSED_MEDIUM
      else PASSED)
   \<and> (status (aggregate fs) = PASSED \<longleftrightarrow> fs = [])"
proof (cases fs)
  case Nil
  then show ?thesis by (simp add: aggregate_def)
next
  case (Cons g gs)
  show ?thesis
  proof (cases "\<exists>f \<in> set fs. confidence f = CRITICAL")
    case True
    then show ?thesis using Cons by (auto simp: aggregate_def list_ex_iff)
  next
    case noC: False
    show ?thesis
    proof (cases "\<exists>f \<in> set fs. confidence f = HIGH")
      case True
      then show ?thesis using Cons noC by (auto simp: aggregate_def list_ex_iff)
    next
      case noH: False
      have "g \<in> set fs" using Cons by simp
      then have "confidence g = MEDIUM" using noC noH confidence_cases by blast
      then have "\<exists>f \<in> set fs. confidence f = MEDIUM" using \<open>g \<in> set fs\<close> by blast
      then show ?thesis using Cons noC noH by (auto simp: aggregate_def list_ex_iff)
    qed
  qed
qed

theorem aggregate_ladder_witness:
  "status (aggregate [\<lparr>confidence = HIGH, reason = ''h''\<rparr>, \<lparr>confidence = MEDIUM, reason = ''m''\<rparr>,
                      \<lparr>confidence = MEDIUM, reason = ''m''\<rparr>]) = FLAGGED_HIGH
   \<and> status (aggregate [\<lparr>confidence = MEDIUM, reason = ''m''\<rparr>,
                        \<lparr>confidence = CRITICAL, reason = ''c''\<rparr>,
                        \<lparr>confidence = HIGH, reason = ''h''\<rparr>]) = FAILED_CRITICAL"
  using aggregate_ladder [of "[\<lparr>confidence = HIGH, reason = ''h''\<rparr>,
                               \<lparr>confidence = MEDIUM, reason = ''m''\<rparr>,
                               \<lparr>confidence = MEDIUM, reason = ''m''\<rparr>]"]
        aggregate_ladder [of "[\<lparr>confidence = MEDIUM, reason = ''m''\<rparr>,
                               \<lparr>confidence = CRITICAL, reason = ''c''\<rparr>,
                               \<lparr>confidence = HIGH, reason = ''h''\<rparr>]"]
  by simp

text \<open>
  C4. A run of the task that reaches \<open>return results\<close> carries the outcome of the
  validation engine on its inputs, and its final status is a function of that outcome's
  status alone: \<open>FAILED_CRITICAL\<close> gives \<open>FAILED\<close>, \<open>FLAGGED_HIGH\<close> gives \<open>FLAGGED\<close>,
  \<open>PASSED\<close> and \<open>PASSED_MEDIUM\<close> give \<open>COMPLETED\<close>.
\<close>

theorem terminal_state_mapping:
  assumes "process_claim_async env cd fp = Results r"
  shows "validation_result r
           = run_validation_engine cd (dicom_metadata r) (lab_report_text r) fp (ocr_results r)
       \<and> (status (validation_result r) = FAILED_CRITICAL \<longrightarrow> task_status r = FAILED)
       \<and> (status (validation_result r) = FLAGGED_HIGH \<longrightarrow> task_status r = FLAGGED)
       \<and> (status (validation_result r) = PASSED \<longrightarrow> task_status r = COMPLETED)
       \<and> (status (validation_result r) = PASSED_MEDIUM \<longrightarrow> task_status r = COMPLETED)"
proof -
  from assms have "process_body env cd fp = Inr r"
    by (simp add: process_claim_async_def split: sum.splits)
  from process_body_Inr [OF this] show ?thesis
    by auto
qed

theorem terminal_state_mapping_witness:
  "process_claim_async demo_env demo_claim demo_paths = Results demo_result
   \<and> status (validation_result demo_result) = PASSED
   \<and> task_status demo_result = COMPLETED"
proof -
  have "status (validation_result demo_result) = PASSED"
    by (simp add: demo_result_def)
  with terminal_state_mapping [OF demo_run] demo_run show ?thesis
    by simp
qed



text \<open>
  C10. A submission without a lab report leaves \<open>file_paths\<close> without \<open>lab_pdf\<close>
  (\<open>submission_without_lab_report\<close> above). When \<open>file_paths\<close> has no lab report (no
  key \<open>lab_pdf\<close>, or an empty path), a
  run that reaches \<open>return results\<close> has the lab text \<open>N/A\<close>, Rule 2 emits nothing
  for it whatever the diagnosis is, no finding of the outcome is \<open>HIGH\<close> and the status
  is not \<open>FLAGGED_HIGH\<close>.
\<close>

theorem no_lab_report_no_high_finding:
  assumes "\<not> truthy_get fp ''lab_pdf''"
    and "process_claim_async env cd fp = Results r"
  shows "lab_report_text r = ''N/A''
       \<and> rule2 cd (lab_report_text r) = []
       \<and> (\<forall>fs. failures (validation_result r) = Some fs \<longrightarrow>
             (\<forall>f \<in> set fs. confidence f \<noteq> HIGH))
       \<and> status (validation_result r) \<noteq> FLAGGED_HIGH"
proof -
  from assms(2) have body: "process_body env cd fp = Inr r"
    by (simp add: process_claim_async_def split: sum.splits)
  from process_body_Inr [OF body] obtain acc where
    acc: "ocr_loop env fp [(''lab_pdf'', ''LAB_PDF''), (''identity_doc'', ''IDENTITY_OCR''),
                 (''consent_image'', ''CONSENT_OCR'')]
                \<lparr>acc_steps = [''DICOM''], acc_ocr = Map.empty, acc_lab = None\<rparr> = Inr acc"
    and lab: "lab_report_text r = (case acc_lab acc of None \<Rightarrow> ''N/A'' | Some t \<Rightarrow> t)"
    and vr: "validation_result r
                = run_validation_engine cd (dicom_metadata r) (lab_report_text r) fp (ocr_results r)"
    by blast
  from ocr_loop_lab_absent [OF assms(1) acc] have "acc_lab acc = None" by simp
  with lab have na: "lab_report_text r = ''N/A''" by simp
  let ?fs = "engine_failures cd (dicom_metadata r) ''N/A'' fp"
  have noH: "\<forall>f \<in> set ?fs. confidence f \<noteq> HIGH"
    using rule_confidences(1) [of cd "dicom_metadata r"] rule_confidences(2) [of cd fp]
      rule_confidences(3) [of cd fp]
    by (auto simp: engine_failures_def rule2_not_available)
  have vr': "validation_result r = aggregate ?fs"
    by (simp add: vr na run_validation_engine_def)
  have c: "\<forall>fs. failures (validation_result r) = Some fs \<longrightarrow>
             (\<forall>f \<in> set fs. confidence f \<noteq> HIGH)"
    using noH by (simp add: vr' aggregate_failures)
  have d: "status (validation_result r) \<noteq> FLAGGED_HIGH"
    using noH by (auto simp: vr' aggregate_def list_ex_iff)
  from na c d show ?thesis
    by (simp add: rule2_not_available)
qed

theorem no_lab_report_no_high_finding_witness:
  "\<not> truthy_get demo_paths ''lab_pdf''
   \<and> py_in ''fracture'' (lower (doctor_diagnosis demo_claim))
   \<and> lab_report_text demo_result = ''N/A''
   \<and> status (validation_result demo_result) \<noteq> FLAGGED_HIGH"
proof -
  have a: "\<not> truthy_get demo_paths ''lab_pdf''"
    by (simp add: truthy_get_def demo_paths_def)
  have b: "py_in ''fracture'' (lower (doctor_diagnosis demo_claim))"
    by (simp add: demo_claim_def lower_def lower_char_def char_of_def bit_Suc_0_iff)
  from no_lab_report_no_high_finding [OF a demo_run] a b show ?thesis
    by simp
qed

text \<open>
  C8. Every exception (subclass of \<open>Exception\<close>) that leaves the \<open>try\<close> block is caught:
  the task returns the \<open>ERROR\<close> dictionary with the text of that exception. This holds
  at each place where the block can raise: the first \<open>update_state\<close>, the lookup of
  \<open>file_paths["dicom"]\<close>, the \<open>update_state\<close> before each optional document that is
  there, and the \<open>update_state\<close> before validation (after an earlier fault the later
  places are not reached, so there the description is that of the first fault). An
  \<open>ERROR\<close> dictionary always carries the text of one of these faults. The task returns
  for every input, and the status it returns is \<open>COMPLETED\<close>, \<open>FLAGGED\<close>, \<open>FAILED\<close> or
  \<open>ERROR\<close>, never the \<open>PROCESSING\<close> that \<open>results\<close> starts with. Exceptions outside
  \<open>Exception\<close> (\<open>KeyboardInterrupt\<close>, \<open>SystemExit\<close>) are not faults of extraction or
  validation and are not modelled.
\<close>

theorem worker_faults_end_in_error:
  "(\<forall>e. process_body env cd fp = Inl e \<longrightarrow> process_claim_async env cd fp = ErrorDict e)
   \<and> (\<forall>e. update_state env PROCESSING ''Processing DICOM...'' = Some e \<longrightarrow>
          process_claim_async env cd fp = ErrorDict e)
   \<and> (update_state env PROCESSING ''Processing DICOM...'' = None \<and> fp ''dicom'' = None \<longrightarrow>
          process_claim_async env cd fp = ErrorDict ([CHR 0x27] @ ''dicom'' @ [CHR 0x27]))
   \<and> (\<forall>key label e.
          (key, label) \<in> set [(''lab_pdf'', ''LAB_PDF''), (''identity_doc'', ''IDENTITY_OCR''),
                               (''consent_image'', ''CONSENT_OCR'')]
          \<and> truthy_get fp key
          \<and> update_state env PROCESSING (''Reading '' @ label @ ''...'') = Some e \<longrightarrow>
          (\<exists>e'. process_claim_async env cd fp = ErrorDict e'))
   \<and> (\<forall>e. update_state env VALIDATING ''Running AI Validation Agents...'' = Some e \<longrightarrow>
          (\<exists>e'. process_claim_async env cd fp = ErrorDict e'))
   \<and> (\<forall>e. process_claim_async env cd fp = ErrorDict e \<longrightarrow>
          return_status (process_claim_async env cd fp) = ERROR
          \<and> ((fp ''dicom'' = None \<and> e = [CHR 0x27] @ ''dicom'' @ [CHR 0x27])
               \<or> (\<exists>st step. update_state env st step = Some e)))
   \<and> return_status (process_claim_async env cd fp) \<in> {COMPLETED, FLAGGED, FAILED, ERROR}"
proof -
  let ?keys = "[(''lab_pdf'', ''LAB_PDF''), (''identity_doc'', ''IDENTITY_OCR''),
                (''consent_image'', ''CONSENT_OCR'')]"
  let ?init = "\<lparr>acc_steps = [''DICOM''], acc_ocr = Map.empty, acc_lab = None\<rparr>"
  have a: "\<forall>e. process_body env cd fp = Inl e \<longrightarrow> process_claim_async env cd fp = ErrorDict e"
    by (simp add: process_claim_async_def)
  have b: "\<forall>e. update_state env PROCESSING ''Processing DICOM...'' = Some e \<longrightarrow>
          process_claim_async env cd fp = ErrorDict e"
    by (simp add: process_claim_async_def process_body_def)
  have c: "update_state env PROCESSING ''Processing DICOM...'' = None \<and> fp ''dicom'' = None \<longrightarrow>
          process_claim_async env cd fp = ErrorDict ([CHR 0x27] @ ''dicom'' @ [CHR 0x27])"
    by (simp add: process_claim_async_def process_body_def)
  have raised: "\<exists>e'. process_claim_async env cd fp = ErrorDict e'"
    if "\<exists>e'. ocr_loop env fp ?keys ?init = Inl e'"
  proof -
    from that obtain e2 where "ocr_loop env fp ?keys ?init = Inl e2" by blast
    then show ?thesis
      by (simp add: process_claim_async_def process_body_def Let_def del: ocr_loop.simps
            split: option.splits)
  qed
  have d: "\<forall>key label e. (key, label) \<in> set ?keys \<and> truthy_get fp key
          \<and> update_state env PROCESSING (''Reading '' @ label @ ''...'') = Some e \<longrightarrow>
          (\<exists>e'. process_claim_async env cd fp = ErrorDict e')"
    using ocr_loop_raises raised by blast
  have e: "\<forall>e. update_state env VALIDATING ''Running AI Validation Agents...'' = Some e \<longrightarrow>
          (\<exists>e'. process_claim_async env cd fp = ErrorDict e')"
    by (simp add: process_claim_async_def process_body_def Let_def del: ocr_loop.simps
          split: option.splits sum.splits)
  have f: "\<forall>e. process_claim_async env cd fp = ErrorDict e \<longrightarrow>
          return_status (process_claim_async env cd fp) = ERROR
          \<and> ((fp ''dicom'' = None \<and> e = [CHR 0x27] @ ''dicom'' @ [CHR 0x27])
               \<or> (\<exists>st step. update_state env st step = Some e))"
  proof (intro allI impI)
    fix e assume r: "process_claim_async env cd fp = ErrorDict e"
    then have "process_body env cd fp = Inl e"
      by (simp add: process_claim_async_def split: sum.splits)
    from process_body_Inl [OF this] r
    show "return_status (process_claim_async env cd fp) = ERROR
          \<and> ((fp ''dicom'' = None \<and> e = [CHR 0x27] @ ''dicom'' @ [CHR 0x27])
               \<or> (\<exists>st step. update_state env st step = Some e))"
      by (simp add: return_status_def)
  qed
  have g: "return_status (process_claim_async env cd fp) \<in> {COMPLETED, FLAGGED, FAILED, ERROR}"
  proof (cases "process_body env cd fp")
    case (Inl e)
    then show ?thesis by (simp add: process_claim_async_def return_status_def)
  next
    case (Inr r)
    from process_body_Inr [OF this] have
      "task_status r = (if status (validation_result r) = FAILED_CRITICAL then FAILED
                   else if status (validation_result r) = FLAGGED_HIGH then FLAGGED
                   else COMPLETED)"
      by blast
    with Inr show ?thesis by (simp add: process_claim_async_def return_status_def)
  qed
  show ?thesis by (intro conjI a b c d e f g)
qed

theorem worker_faults_end_in_error_witness:
  "process_claim_async
     (demo_env\<lparr>update_state :=
        (\<lambda>st step. if st = VALIDATING then Some ''backend down'' else None)\<rparr>)
     demo_claim demo_paths = ErrorDict ''backend down''
   \<and> return_status (process_claim_async
        (demo_env\<lparr>update_state :=
           (\<lambda>st step. if st = VALIDATING then Some ''backend down'' else None)\<rparr>)
        demo_claim demo_paths) = ERROR"
proof -
  let ?env = "demo_env\<lparr>update_state :=
        (\<lambda>st step. if st = VALIDATING then Some ''backend down'' else None)\<rparr>"
  note w = worker_faults_end_in_error [of ?env demo_claim demo_paths]
  note w5 = w [THEN conjunct2, THEN conjunct2, THEN conjunct2, THEN conjunct2, THEN conjunct1,
               rule_format]
  note w6 = w [THEN conjunct2, THEN conjunct2, THEN conjunct2, THEN conjunct2, THEN conjunct2,
               THEN conjunct1, rule_format]
  have u: "update_state ?env VALIDATING ''Running AI Validation Agents...'' = Some ''backend down''"
    by simp
  from w5 [OF u] obtain e' where r: "process_claim_async ?env demo_claim demo_paths = ErrorDict e'"
    by (rule exE)
  from w6 [OF r] have st: "return_status (process_claim_async ?env demo_claim demo_paths) = ERROR"
    and src: "(demo_paths ''dicom'' = None \<and> e' = [CHR 0x27] @ ''dicom'' @ [CHR 0x27])
         \<or> (\<exists>st step. update_state ?env st step = Some e')"
    by (rule conjunct1, rule conjunct2)
  have dic: "demo_paths ''dicom'' \<noteq> None"
    by (simp add: demo_paths_def)
  from src dic obtain st0 step0 where "update_state ?env st0 step0 = Some e'"
    by (elim disjE conjE exE) simp_all
  then have "e' = ''backend down''"
    by (simp split: if_splits)
  with r st show ?thesis by simp
qed

text \<open>
  C9. The three adapters return a value for every path and every behaviour of their
  libraries. When \<open>dcmread\<close> raises \<open>e\<close>, the DICOM adapter returns \<open>{"error": e}\<close>;
  when it succeeds, the adapter returns exactly the five keys \<open>PatientID\<close>,
  \<open>PatientName\<close>, \<open>AccessionNumber\<close>, \<open>StudyDate\<close> and \<open>Modality\<close>, each with the
  element's text or \<open>N/A\<close> when the dataset has no such element. The PDF adapter returns
  the pages' text in order, or the descriptor \<open>PDF Error: e\<close> when opening, a page or
  closing raises \<open>e\<close>; the OCR adapter returns the text or \<open>OCR Error: e\<close>.
\<close>

theorem adapters_never_raise:
  "(\<forall>e. dcmread env p = Inl e \<longrightarrow> process_dicom env p = [''error'' \<mapsto> e])
   \<and> (\<forall>ds. dcmread env p = Inr ds \<longrightarrow>
         dom (process_dicom env p)
           = {''PatientID'', ''PatientName'', ''AccessionNumber'', ''StudyDate'', ''Modality''}
         \<and> (\<forall>k \<in> dom (process_dicom env p).
               process_dicom env p k = Some (case ds k of None \<Rightarrow> ''N/A'' | Some v \<Rightarrow> v)))
   \<and> (\<forall>e. fitz_open env p = Inl e \<longrightarrow> process_pdf env p = ''PDF Error: '' @ e)
   \<and> (\<forall>doc ts e rest. fitz_open env p = Inr doc \<and> pages doc = map Inr ts @ Inl e # rest \<longrightarrow>
         process_pdf env p = ''PDF Error: '' @ e)
   \<and> (\<forall>doc ts e. fitz_open env p = Inr doc \<and> pages doc = map Inr ts \<and> close_doc doc = Some e \<longrightarrow>
         process_pdf env p = ''PDF Error: '' @ e)
   \<and> (\<forall>doc ts. fitz_open env p = Inr doc \<and> pages doc = map Inr ts \<and> close_doc doc = None \<longrightarrow>
         process_pdf env p = concat ts)
   \<and> (\<forall>e. image_to_string env p = Inl e \<longrightarrow> process_image_ocr env p = ''OCR Error: '' @ e)
   \<and> (\<forall>t. image_to_string env p = Inr t \<longrightarrow> process_image_ocr env p = t)"
proof -
  have a: "\<forall>e. dcmread env p = Inl e \<longrightarrow> process_dicom env p = [''error'' \<mapsto> e]"
    by (simp add: process_dicom_def)
  have b: "\<forall>ds. dcmread env p = Inr ds \<longrightarrow>
         dom (process_dicom env p)
           = {''PatientID'', ''PatientName'', ''AccessionNumber'', ''StudyDate'', ''Modality''}
         \<and> (\<forall>k \<in> dom (process_dicom env p).
               process_dicom env p k = Some (case ds k of None \<Rightarrow> ''N/A'' | Some v \<Rightarrow> v))"
    by (auto simp: process_dicom_def ds_get_def)
  have c: "\<forall>e. fitz_open env p = Inl e \<longrightarrow> process_pdf env p = ''PDF Error: '' @ e"
    by (simp add: process_pdf_def)
  have d: "\<forall>doc ts e rest. fitz_open env p = Inr doc \<and> pages doc = map Inr ts @ Inl e # rest \<longrightarrow>
         process_pdf env p = ''PDF Error: '' @ e"
    by (simp add: process_pdf_def read_pages_fault)
  have e: "\<forall>doc ts e. fitz_open env p = Inr doc \<and> pages doc = map Inr ts \<and> close_doc doc = Some e \<longrightarrow>
         process_pdf env p = ''PDF Error: '' @ e"
    by (simp add: process_pdf_def read_pages_all)
  have f: "\<forall>doc ts. fitz_open env p = Inr doc \<and> pages doc = map Inr ts \<and> close_doc doc = None \<longrightarrow>
         process_pdf env p = concat ts"
    by (simp add: process_pdf_def read_pages_all)
  have g: "\<forall>e. image_to_string env p = Inl e \<longrightarrow> process_image_ocr env p = ''OCR Error: '' @ e"
    by (simp add: process_image_ocr_def)
  have h: "\<forall>t. image_to_string env p = Inr t \<longrightarrow> process_image_ocr env p = t"
    by (simp add: process_image_ocr_def)
  show ?thesis by (intro conjI a b c d e f g h)
qed

theorem adapters_never_raise_witness:
  "process_dicom demo_env ''/up/other.dcm'' = [''error'' \<mapsto> ''bad file'']
   \<and> process_dicom demo_env ''/up/scan.dcm'' ''PatientID'' = Some ''P123 ''
   \<and> process_dicom demo_env ''/up/scan.dcm'' ''StudyDate'' = Some ''N/A''
   \<and> process_pdf demo_env ''/up/lab.pdf'' = ''Hb: Normal''
   \<and> process_image_ocr demo_env ''/up/id.png'' = ''signed''"
proof -
  note w = adapters_never_raise [of demo_env]
  note w1 = w [THEN conjunct1, rule_format]
  note w2 = w [THEN conjunct2, THEN conjunct1, rule_format]
  note w6 = w [THEN conjunct2, THEN conjunct2, THEN conjunct2, THEN conjunct2, THEN conjunct2,
               THEN conjunct1, rule_format]
  note w8 = w [THEN conjunct2, THEN conjunct2, THEN conjunct2, THEN conjunct2, THEN conjunct2,
               THEN conjunct2, THEN conjunct2, rule_format]
  have 1: "dcmread demo_env ''/up/other.dcm'' = Inl ''bad file''"
    by (simp add: demo_env_def)
  have 2: "dcmread demo_env ''/up/scan.dcm''
             = Inr [''PatientID'' \<mapsto> ''P123 '', ''Modality'' \<mapsto> ''CT'']"
    by (simp add: demo_env_def)
  have 3: "fitz_open demo_env ''/up/lab.pdf''
             = Inr \<lparr>pages = [Inr ''Hb: '', Inr ''Normal''], close_doc = None\<rparr>
           \<and> pages \<lparr>pages = [Inr ''Hb: '', Inr ''Normal''], close_doc = None\<rparr>
               = map Inr [''Hb: '', ''Normal'']
           \<and> close_doc \<lparr>pages = [Inr ''Hb: '', Inr ''Normal''], close_doc = None\<rparr> = None"
    by (simp add: demo_env_def)
  have 4: "image_to_string demo_env ''/up/id.png'' = Inr ''signed''"
    by (simp add: demo_env_def)
  have a: "process_dicom demo_env ''/up/other.dcm'' = [''error'' \<mapsto> ''bad file'']"
    by (rule w1 [OF 1])
  from w2 [OF 2]
  have dm: "dom (process_dicom demo_env ''/up/scan.dcm'')
           = {''PatientID'', ''PatientName'', ''AccessionNumber'', ''StudyDate'', ''Modality''}"
    and all: "\<forall>k \<in> dom (process_dicom demo_env ''/up/scan.dcm'').
               process_dicom demo_env ''/up/scan.dcm'' k
                 = Some (case [''PatientID'' \<mapsto> ''P123 '', ''Modality'' \<mapsto> ''CT''] k of
                           None \<Rightarrow> ''N/A'' | Some v \<Rightarrow> v)"
    by (rule conjunct1, rule conjunct2)
  from all have b: "process_dicom demo_env ''/up/scan.dcm'' ''PatientID'' = Some ''P123 ''"
    and c: "process_dicom demo_env ''/up/scan.dcm'' ''StudyDate'' = Some ''N/A''"
    by (simp_all add: dm)
  from w6 [OF 3]
  have "process_pdf demo_env ''/up/lab.pdf'' = concat [''Hb: '', ''Normal'']" .
  then have d: "process_pdf demo_env ''/up/lab.pdf'' = ''Hb: Normal''" by simp
  have e: "process_image_ocr demo_env ''/up/id.png'' = ''signed''"
    by (rule w8 [OF 4])
  show ?thesis by (intro conjI a b c d e)
qed

text \<open>
  C5 (amended). For an accepted submission let \<open>claim_data\<close> and \<open>file_paths\<close> be what is
  handed to the task. \<open>consent_data\<close> is the decoded consent payload, or the empty object
  when no payload (or an empty one) came with the form; \<open>file_paths\<close> has a true
  \<open>consent_image\<close> exactly when a consent image was uploaded. Rule 4 emits its
  \<open>CRITICAL\<close> finding, and the finding is among the engine's findings, if and only if
  \<open>consent_data\<close> is false in Python's sense (no payload, or a payload that decodes to an
  empty or false value) and no consent image was uploaded. A consent image alone, or a
  payload that decodes to a true value alone, suppresses the finding.
\<close>

theorem consent_rule_on_submission:
  assumes "submit_claim_async env nid f s = (ClaimAccepted t k, s')"
  shows "loads_or_empty env (form_digital_consent_payload f)
           = Inr (consent_data (dispatched_claim s'))
       \<and> (truthy_get (dispatched_paths s') ''consent_image'' \<longleftrightarrow> form_consent_form_image f \<noteq> None)
       \<and> rule4 (dispatched_claim s') (dispatched_paths s')
           = (if \<not> py_truthy (consent_data (dispatched_claim s')) \<and> form_consent_form_image f = None
              then [missing_consent] else [])
       \<and> (\<forall>dm lab.
             missing_consent \<in> set (engine_failures (dispatched_claim s') dm lab (dispatched_paths s'))
             \<longleftrightarrow> \<not> py_truthy (consent_data (dispatched_claim s')) \<and> form_consent_form_image f = None)
       \<and> (form_digital_consent_payload f = None \<or> form_digital_consent_payload f = Some [] \<longrightarrow>
             consent_data (dispatched_claim s') = JObject [])"
proof -
  note d = submit_dispatched [OF assms]
  from d have con: "loads_or_empty env (form_digital_consent_payload f)
           = Inr (consent_data (dispatched_claim s'))"
    by (rule conjunct1)
  from d have "truthy_get (dispatched_paths s') ''consent_image'' \<longleftrightarrow>
             (\<exists>up. (Some up, ''consent_image'') \<in> set
                [(Some (form_dicom_file f), ''dicom''),
                 (form_lab_report_pdf f, ''lab_pdf''),
                 (form_geotagged_patient_photo f, ''patient_photo''),
                 (form_identity_document_image f, ''identity_doc''),
                 (form_consent_form_image f, ''consent_image'')])"
    by blast
  also have "\<dots> \<longleftrightarrow> form_consent_form_image f \<noteq> None"
    by (cases "form_consent_form_image f") simp_all
  finally have img: "truthy_get (dispatched_paths s') ''consent_image'' \<longleftrightarrow>
                    form_consent_form_image f \<noteq> None" .
  have r4: "rule4 (dispatched_claim s') (dispatched_paths s')
           = (if \<not> py_truthy (consent_data (dispatched_claim s')) \<and> form_consent_form_image f = None
              then [missing_consent] else [])"
    by (simp add: rule4_def img missing_consent_def)
  have mem: "\<forall>dm lab.
             missing_consent \<in> set (engine_failures (dispatched_claim s') dm lab (dispatched_paths s'))
             \<longleftrightarrow> \<not> py_truthy (consent_data (dispatched_claim s')) \<and> form_consent_form_image f = None"
    by (simp add: engine_failures_def other_rules_not_missing_consent r4)
  have emp: "form_digital_consent_payload f = None \<or> form_digital_consent_payload f = Some [] \<longrightarrow>
             consent_data (dispatched_claim s') = JObject []"
    using con by (auto simp: loads_or_empty_def)
  show ?thesis by (intro conjI con img r4 mem emp)
qed

text \<open>
  The claim as stated fails: the payload \<open>{}\<close> is supplied with the submission, no
  consent image is, and Rule 4 emits its finding.
\<close>

theorem consent_rule_on_submission_counterexample:
  "form_digital_consent_payload demo_form = Some ''{}''
   \<and> submit_claim_async demo_api_env ''t1'' demo_form empty_state
       = (ClaimAccepted ''t1'' (idempotency_key_of demo_form), demo_state)
   \<and> rule4 (dispatched_claim demo_state) (dispatched_paths demo_state) = [missing_consent]"
proof -
  have a: "form_digital_consent_payload demo_form = Some ''{}''"
    by (simp add: demo_form_def)
  have c: "rule4 (dispatched_claim demo_state) (dispatched_paths demo_state) = [missing_consent]"
    by (simp add: rule4_def dispatched_claim_def dispatched_paths_def demo_state_def
          missing_consent_def truthy_get_def)
  show ?thesis by (intro conjI a demo_submit c)
qed

theorem consent_rule_on_submission_witness:
  "rule4 (dispatched_claim (snd (submit_claim_async demo_api_env ''t1'' image_form empty_state)))
         (dispatched_paths (snd (submit_claim_async demo_api_env ''t1'' image_form empty_state)))
     = []
   \<and> form_digital_consent_payload image_form = None"
proof -
  let ?s' = "snd (submit_claim_async demo_api_env ''t1'' image_form empty_state)"
  have acc: "submit_claim_async demo_api_env ''t1'' image_form empty_state
               = (ClaimAccepted ''t1'' (idempotency_key_of image_form), ?s')"
    using image_submit by (simp add: prod_eq_iff)
  have img: "form_consent_form_image image_form \<noteq> None"
    and pay: "form_digital_consent_payload image_form = None"
    by (simp_all add: image_form_def)
  note w = consent_rule_on_submission [OF acc, THEN conjunct2, THEN conjunct2, THEN conjunct1]
  from w img have "rule4 (dispatched_claim ?s') (dispatched_paths ?s') = []"
    by simp
  with pay show ?thesis by simp
qed

text \<open>
  C3 (amended). When a submission without an idempotency key is accepted, its key is the
  SHA-256 hex digest of the text patient id, \<open>-\<close>, DICOM file name, \<open>-\<close>, diagnosis.
  A later submission without a key and with the identical triple has the same joined
  text. Every submission without a key and with the same joined text derives the same
  key and, in the state right after the first submission and in every state reached from
  it by any sequence of submissions and overrides, is answered with the duplicate signal
  carrying the first task id, and leaves the state (key table, saved files, dispatched
  tasks, log) as it was. Triples are told apart only as far as their joined texts differ.
\<close>

theorem duplicate_submission_rejected:
  assumes "submit_claim_async env nid f s = (ClaimAccepted t k, s')"
    and "\<not> truthy_opt (form_idempotency_key f)"
    and "\<not> truthy_opt (form_idempotency_key f2)"
  shows "t = nid
       \<and> k = sha256_hexdigest (form_verified_patient_id f @ ''-'' @ filename (form_dicom_file f)
                                 @ ''-'' @ form_doctor_diagnosis f)
       \<and> (form_verified_patient_id f2 = form_verified_patient_id f
           \<and> filename (form_dicom_file f2) = filename (form_dicom_file f)
           \<and> form_doctor_diagnosis f2 = form_doctor_diagnosis f \<longrightarrow> key_raw f2 = key_raw f)
       \<and> (key_raw f2 = key_raw f \<longrightarrow>
             idempotency_key_of f2 = k
             \<and> submit_claim_async env2 nid2 f2 s' = (DuplicateSubmission t, s')
             \<and> (\<forall>calls. submit_claim_async env2 nid2 f2 (run_calls calls s')
                          = (DuplicateSubmission t, run_calls calls s')))"
proof -
  from submit_accepted [OF assms(1)] have t: "t = nid" and k: "k = idempotency_key_of f"
    by blast+
  from submit_dispatched [OF assms(1)] have db: "IDEMPOTENCY_DB s' = (IDEMPOTENCY_DB s)(k \<mapsto> t)"
    by blast
  have kf: "k = sha256_hexdigest (key_raw f)"
    using k key_of_no_key [OF assms(2)] by simp
  have a: "k = sha256_hexdigest (form_verified_patient_id f @ ''-'' @ filename (form_dicom_file f)
                                 @ ''-'' @ form_doctor_diagnosis f)"
    using kf by (simp add: key_raw_def)
  have b: "form_verified_patient_id f2 = form_verified_patient_id f
           \<and> filename (form_dicom_file f2) = filename (form_dicom_file f)
           \<and> form_doctor_diagnosis f2 = form_doctor_diagnosis f \<longrightarrow> key_raw f2 = key_raw f"
    by (simp add: key_raw_def)
  have c: "key_raw f2 = key_raw f \<longrightarrow>
             idempotency_key_of f2 = k
             \<and> submit_claim_async env2 nid2 f2 s' = (DuplicateSubmission t, s')
             \<and> (\<forall>calls. submit_claim_async env2 nid2 f2 (run_calls calls s')
                          = (DuplicateSubmission t, run_calls calls s'))"
  proof
    assume same: "key_raw f2 = key_raw f"
    have k2: "idempotency_key_of f2 = k"
      using key_of_no_key [OF assms(3)] kf same by simp
    have bound: "IDEMPOTENCY_DB s' (idempotency_key_of f2) = Some t"
      by (simp add: k2 db)
    have later: "submit_claim_async env2 nid2 f2 (run_calls calls s')
                   = (DuplicateSubmission t, run_calls calls s')" for calls
    proof -
      from run_calls_keeps_bound_keys [OF bound]
      have "IDEMPOTENCY_DB (run_calls calls s') (idempotency_key_of f2) = Some t" .
      then show ?thesis
        by (simp add: submit_claim_async_def del: save_files.simps)
    qed
    from later [of "[]"] have now: "submit_claim_async env2 nid2 f2 s' = (DuplicateSubmission t, s')"
      by simp
    from k2 now later show "idempotency_key_of f2 = k
             \<and> submit_claim_async env2 nid2 f2 s' = (DuplicateSubmission t, s')
             \<and> (\<forall>calls. submit_claim_async env2 nid2 f2 (run_calls calls s')
                          = (DuplicateSubmission t, run_calls calls s'))"
      by blast
  qed
  show ?thesis by (intro conjI t a b c)
qed

theorem duplicate_submission_rejected_witness:
  "submit_claim_async demo_api_env ''t2'' demo_form demo_state
     = (DuplicateSubmission ''t1'', demo_state)
   \<and> submit_claim_async demo_api_env ''t4'' demo_form
        (run_calls [Submit demo_api_env ''t3'' image_form,
                    Override ''2025-01-01T10:00:00'' ''t1'' ''dr7'' ''reviewed'',
                    Submit demo_api_env ''t2'' demo_form] demo_state)
       = (DuplicateSubmission ''t1'',
          run_calls [Submit demo_api_env ''t3'' image_form,
                     Override ''2025-01-01T10:00:00'' ''t1'' ''dr7'' ''reviewed'',
                     Submit demo_api_env ''t2'' demo_form] demo_state)"
proof -
  have n: "\<not> truthy_opt (form_idempotency_key demo_form)"
    by (simp add: truthy_opt_def demo_form_def)
  note w = duplicate_submission_rejected [OF demo_submit n n,
             THEN conjunct2, THEN conjunct2, THEN conjunct2, rule_format, OF refl]
  have a: "submit_claim_async demo_api_env ''t2'' demo_form demo_state
     = (DuplicateSubmission ''t1'', demo_state)"
    by (rule w [THEN conjunct2, THEN conjunct1])
  have b: "submit_claim_async demo_api_env ''t4'' demo_form
        (run_calls [Submit demo_api_env ''t3'' image_form,
                    Override ''2025-01-01T10:00:00'' ''t1'' ''dr7'' ''reviewed'',
                    Submit demo_api_env ''t2'' demo_form] demo_state)
       = (DuplicateSubmission ''t1'',
          run_calls [Submit demo_api_env ''t3'' image_form,
                     Override ''2025-01-01T10:00:00'' ''t1'' ''dr7'' ''reviewed'',
                     Submit demo_api_env ''t2'' demo_form] demo_state)"
    by (rule w [THEN conjunct2, THEN conjunct2, rule_format])
  show ?thesis by (intro conjI a b)
qed

text \<open>
  The claim as stated fails in its last part: the two triples below are distinct, their
  joined texts are both \<open>P-1-2.dcm-cough\<close>, so they derive the same key, and the second
  submission is rejected as a duplicate of the first.
\<close>

theorem duplicate_submission_rejected_counterexample:
  "(form_verified_patient_id form_a, filename (form_dicom_file form_a),
    form_doctor_diagnosis form_a)
     \<noteq> (form_verified_patient_id form_b, filename (form_dicom_file form_b),
         form_doctor_diagnosis form_b)
   \<and> form_idempotency_key form_a = None
   \<and> form_idempotency_key form_b = None
   \<and> idempotency_key_of form_a = idempotency_key_of form_b
   \<and> fst (submit_claim_async demo_api_env ''t1'' form_a empty_state)
       = ClaimAccepted ''t1'' (idempotency_key_of form_a)
   \<and> fst (submit_claim_async demo_api_env ''t2'' form_b
             (snd (submit_claim_async demo_api_env ''t1'' form_a empty_state)))
       = DuplicateSubmission ''t1''"
proof -
  have a: "(form_verified_patient_id form_a, filename (form_dicom_file form_a),
    form_doctor_diagnosis form_a)
     \<noteq> (form_verified_patient_id form_b, filename (form_dicom_file form_b),
         form_doctor_diagnosis form_b)"
    by (simp add: form_a_def form_b_def)
  have b: "form_idempotency_key form_a = None" "form_idempotency_key form_b = None"
    by (simp_all add: form_a_def form_b_def demo_form_def)
  have raw: "key_raw form_a = key_raw form_b"
    by (simp add: key_raw_def form_a_def form_b_def demo_form_def)
  have c: "idempotency_key_of form_a = idempotency_key_of form_b"
    by (simp add: idempotency_key_of_def b raw)
  have k: "IDEMPOTENCY_DB empty_state (idempotency_key_of form_a) = None"
    by (simp add: empty_state_def)
  have d: "fst (submit_claim_async demo_api_env ''t1'' form_a empty_state)
       = ClaimAccepted ''t1'' (idempotency_key_of form_a)"
    unfolding submit_claim_async_def k Let_def
    by (simp add: demo_api_env_def empty_state_def save_file_def loads_or_empty_def
          json_loads_sample_def path_join_def Let_def demo_form_def form_a_def)
  have k2: "IDEMPOTENCY_DB (snd (submit_claim_async demo_api_env ''t1'' form_a empty_state))
              (idempotency_key_of form_b) = Some ''t1''"
    unfolding c [symmetric] submit_claim_async_def k Let_def
    by (simp add: demo_api_env_def empty_state_def save_file_def loads_or_empty_def
          json_loads_sample_def path_join_def Let_def demo_form_def form_a_def)
  have e: "fst (submit_claim_async demo_api_env ''t2'' form_b
             (snd (submit_claim_async demo_api_env ''t1'' form_a empty_state)))
       = DuplicateSubmission ''t1''"
    by (subst submit_claim_async_def) (simp add: k2 Let_def del: save_files.simps)
  show ?thesis by (intro conjI a b c d e)
qed

text \<open>
  C6 (amended). For every override action, with empty or non-empty fields alike, the
  operation returns the entry it appends to the log; the entry's seal is the SHA-256 hex
  digest of task id, doctor id and reason concatenated. The timestamp and the event tag
  are not covered by the seal: entries made at different times for the same three fields
  carry the same seal. The operation changes the log only; the key table, the saved files
  and the dispatched tasks stay as they were.
\<close>

theorem override_log_seal:
  "fst (doctor_override now tid did why s) = override_entry now tid did why
   \<and> snd (doctor_override now tid did why s)
       = s\<lparr>IMMUTABLE_LOGS := IMMUTABLE_LOGS s @ [override_entry now tid did why]\<rparr>
   \<and> view_logs (snd (doctor_override now tid did why s))
       = view_logs s @ [override_entry now tid did why]
   \<and> IDEMPOTENCY_DB (snd (doctor_override now tid did why s)) = IDEMPOTENCY_DB s
   \<and> dispatched (snd (doctor_override now tid did why s)) = dispatched s
   \<and> saved_files (snd (doctor_override now tid did why s)) = saved_files s
   \<and> event (override_entry now tid did why) = ''OVERRIDE''
   \<and> timestamp (override_entry now tid did why) = now
   \<and> task_id (override_entry now tid did why) = tid
   \<and> doctor_id (override_entry now tid did why) = did
   \<and> override_reason (override_entry now tid did why) = why
   \<and> signature (override_entry now tid did why) = sha256_hexdigest (tid @ did @ why)
   \<and> signature (override_entry now2 tid did why) = signature (override_entry now tid did why)"
  by (simp add: doctor_override_def override_entry_def view_logs_def Let_def)

theorem override_log_seal_witness:
  "signature (fst (doctor_override ''2025-01-01T10:00:00'' ''t1'' ''dr7'' ''reviewed'' demo_state))
     = sha256_hexdigest ''t1dr7reviewed''
   \<and> IDEMPOTENCY_DB (snd (doctor_override ''2025-01-01T10:00:00'' ''t1'' ''dr7'' ''reviewed''
                             demo_state))
       = IDEMPOTENCY_DB demo_state"
  using override_log_seal [of "''2025-01-01T10:00:00''" "''t1''" "''dr7''" "''reviewed''" demo_state]
  by simp

text \<open>
  The claim as stated fails for the timestamp: two entries that differ in their
  timestamps have the same seal, so the seal cannot show that a timestamp was altered.
\<close>

theorem override_log_seal_counterexample:
  "timestamp (override_entry ''2025-01-01T10:00:00'' ''t1'' ''dr7'' ''reviewed'')
     \<noteq> timestamp (override_entry ''2031-12-31T23:59:59'' ''t1'' ''dr7'' ''reviewed'')
   \<and> signature (override_entry ''2025-01-01T10:00:00'' ''t1'' ''dr7'' ''reviewed'')
       = signature (override_entry ''2031-12-31T23:59:59'' ''t1'' ''dr7'' ''reviewed'')"
  by (simp add: override_entry_def)

text \<open>
  C2. The claim holds on every input but one kind (\<open>rule1_cases\<close> above): an error
  descriptor whose text is empty, which is what \<open>_process_dicom\<close> returns when
  \<open>dcmread\<close> raises an exception without a message (\<open>str(MemoryError())\<close> is empty).
  Line 63 tests the truth value of the descriptor, so Rule 1 goes on to compare the
  declared id with the text \<open>None\<close>: it reports a mismatch that names \<open>None\<close>, and for
  the declared id \<open>None\<close> it reports nothing, the engine passes and the task completes
  on a DICOM file that could not be read.
\<close>

theorem rule1_empty_error_text:
  "process_dicom (demo_env\<lparr>dcmread := (\<lambda>p. Inl [])\<rparr>) ''/up/scan.dcm'' = [''error'' \<mapsto> []]
   \<and> rule1 demo_claim [''error'' \<mapsto> []]
       = [\<lparr>confidence = CRITICAL,
           reason = ''Patient ID Mismatch: Form(P123) vs DICOM(None)''\<rparr>]
   \<and> rule1 (demo_claim\<lparr>verified_patient_id := ''None''\<rparr>) [''error'' \<mapsto> []] = []
   \<and> run_validation_engine (demo_claim\<lparr>verified_patient_id := ''None''\<rparr>) [''error'' \<mapsto> []]
        ''N/A'' demo_paths Map.empty = \<lparr>status = PASSED, failures = None\<rparr>
   \<and> return_status (process_claim_async (demo_env\<lparr>dcmread := (\<lambda>p. Inl [])\<rparr>)
                       (demo_claim\<lparr>verified_patient_id := ''None''\<rparr>) demo_paths) = COMPLETED"
proof -
  let ?env = "demo_env\<lparr>dcmread := (\<lambda>p. Inl [])\<rparr>"
  let ?cd = "demo_claim\<lparr>verified_patient_id := ''None''\<rparr>"
  have a: "process_dicom ?env ''/up/scan.dcm'' = [''error'' \<mapsto> []]"
    by (simp add: process_dicom_def)
  have b: "rule1 demo_claim [''error'' \<mapsto> []]
       = [\<lparr>confidence = CRITICAL,
           reason = ''Patient ID Mismatch: Form(P123) vs DICOM(None)''\<rparr>]"
    by (simp add: rule1_def demo_claim_def py_eval)
  have c: "rule1 ?cd [''error'' \<mapsto> []] = []"
    by (simp add: rule1_def demo_claim_def py_eval)
  have d: "run_validation_engine ?cd [''error'' \<mapsto> []] ''N/A'' demo_paths Map.empty
             = \<lparr>status = PASSED, failures = None\<rparr>"
    by (simp add: demo_claim_def demo_paths_def engine_eval py_eval)
  have u: "update_state ?env = (\<lambda>st step. None)"
    by (simp add: demo_env_def)
  have l: "ocr_loop ?env demo_paths
             [(''lab_pdf'', ''LAB_PDF''), (''identity_doc'', ''IDENTITY_OCR''),
              (''consent_image'', ''CONSENT_OCR'')]
             \<lparr>acc_steps = [''DICOM''], acc_ocr = Map.empty, acc_lab = None\<rparr>
           = Inr \<lparr>acc_steps = [''DICOM''], acc_ocr = Map.empty, acc_lab = None\<rparr>"
    by (simp add: demo_paths_def)
  have p: "demo_paths ''dicom'' = Some ''/up/scan.dcm''"
    by (simp add: demo_paths_def)
  have e: "return_status (process_claim_async ?env ?cd demo_paths) = COMPLETED"
    by (simp add: return_status_def process_claim_async_def process_body_def u l p a d Let_def
          del: ocr_loop.simps)
  show ?thesis by (intro conjI a b c d e)
qed

end
